theory Spec2Isabelle
  imports Main
begin

section \<open>Python strings\<close>

text \<open>
  A Python \<open>str\<close> is modelled as a \<open>string\<close>; every \<open>char\<close> stands for one code point below
  256.  \<open>str.strip()\<close> removes the code points for which \<open>str.isspace\<close> holds; below 256 these
  are 9 to 13, 28 to 32, 133 and 160.
\<close>

definition py_isspace :: "char \<Rightarrow> bool" where
  "py_isspace c =
     (let n = (of_char c :: nat)
      in (9 \<le> n \<and> n \<le> 13) \<or> (28 \<le> n \<and> n \<le> 32) \<or> n = 133 \<or> n = 160)"

definition py_lstrip_chars :: "(char \<Rightarrow> bool) \<Rightarrow> string \<Rightarrow> string" where
  "py_lstrip_chars P s = dropWhile P s"

definition py_rstrip_chars :: "(char \<Rightarrow> bool) \<Rightarrow> string \<Rightarrow> string" where
  "py_rstrip_chars P s = rev (dropWhile P (rev s))"

definition py_strip_chars :: "(char \<Rightarrow> bool) \<Rightarrow> string \<Rightarrow> string" where
  "py_strip_chars P s = py_rstrip_chars P (py_lstrip_chars P s)"

definition py_strip :: "string \<Rightarrow> string" where
  "py_strip s = py_strip_chars py_isspace s"

text \<open>\<open>s.split(c, 1)\<close> for a separator that occurs in \<open>s\<close>: the text before and after its
  first occurrence.\<close>

definition py_split1 :: "char \<Rightarrow> string \<Rightarrow> string \<times> string" where
  "py_split1 c s = (takeWhile (\<lambda>x. x \<noteq> c) s, drop 1 (dropWhile (\<lambda>x. x \<noteq> c) s))"

text \<open>\<open>s.split(c)\<close>: the pieces between all occurrences of \<open>c\<close>; never an empty list.\<close>

fun py_split :: "char \<Rightarrow> string \<Rightarrow> string list" where
  "py_split c [] = [[]]"
| "py_split c (x # xs) =
     (if x = c then [] # py_split c xs
      else (case py_split c xs of [] \<Rightarrow> [[x]] | h # t \<Rightarrow> (x # h) # t))"

text \<open>\<open>c.join(parts)\<close>.\<close>

fun py_join :: "char \<Rightarrow> string list \<Rightarrow> string" where
  "py_join c [] = []"
| "py_join c [p] = p"
| "py_join c (p # q # ps) = p @ c # py_join c (q # ps)"

section \<open>Exceptions\<close>

text \<open>
  An exception other than the program's own \<open>APIError\<close> is described by what the handlers of
  the program can see of it: the classes they test with \<open>except\<close>, and the text \<open>str(e)\<close>.
  \<open>is_timeout\<close> stands for \<open>requests.exceptions.Timeout\<close>, \<open>is_connection_error\<close> for
  \<open>requests.exceptions.ConnectionError\<close>, \<open>is_request_exception\<close> for
  \<open>requests.exceptions.RequestException\<close>, \<open>is_value_error\<close> for \<open>ValueError\<close> and
  \<open>is_key_error\<close> for \<open>KeyError\<close>.  One exception can be an instance of several of them, as
  \<open>ConnectTimeout\<close> is.
\<close>

record exn =
  is_timeout :: bool
  is_connection_error :: bool
  is_request_exception :: bool
  is_value_error :: bool
  is_key_error :: bool
  text_of :: string

definition value_error :: "string \<Rightarrow> exn" where
  "value_error msg =
     \<lparr>is_timeout = False, is_connection_error = False, is_request_exception = False,
      is_value_error = True, is_key_error = False, text_of = msg\<rparr>"

definition attribute_error :: "string \<Rightarrow> exn" where
  "attribute_error msg =
     \<lparr>is_timeout = False, is_connection_error = False, is_request_exception = False,
      is_value_error = False, is_key_error = False, text_of = msg\<rparr>"

section \<open>The URL functions of the standard library\<close>

text \<open>
  \<open>urlparse\<close> and \<open>urljoin\<close> are imported from \<open>urllib.parse\<close>.  The definitions below follow
  that module as of CPython 3.11.10.  Two of its checks are not computed here:
  \<^item> the validation of a bracketed host (an IPv6 or IPvFuture literal), which the module leaves
    to \<open>ipaddress\<close>, is the parameter \<open>chk\<close> of every function below: \<open>chk h\<close> says that the
    bracketed host \<open>h\<close> is accepted, and a rejected host raises \<open>ValueError\<close>;
  \<^item> the test of the authority under NFKC normalisation never raises for code points below
    256, the code points a \<open>string\<close> holds here.
\<close>

record split_result =
  scheme :: string
  netloc :: string
  path :: string
  query :: string
  fragment :: string

record parse_result = split_result +
  params :: string

definition is_c0_or_space :: "char \<Rightarrow> bool" where
  "is_c0_or_space c = ((of_char c :: nat) \<le> 32)"

definition is_unsafe_byte :: "char \<Rightarrow> bool" where
  "is_unsafe_byte c = (c = CHR 0x09 \<or> c = CHR 0x0D \<or> c = CHR 0x0A)"

definition ascii_upper_alpha :: "char \<Rightarrow> bool" where
  "ascii_upper_alpha c = (let n = (of_char c :: nat) in 65 \<le> n \<and> n \<le> 90)"

definition ascii_lower_alpha :: "char \<Rightarrow> bool" where
  "ascii_lower_alpha c = (let n = (of_char c :: nat) in 97 \<le> n \<and> n \<le> 122)"

definition ascii_digit :: "char \<Rightarrow> bool" where
  "ascii_digit c = (let n = (of_char c :: nat) in 48 \<le> n \<and> n \<le> 57)"

definition ascii_alpha :: "char \<Rightarrow> bool" where
  "ascii_alpha c = (ascii_upper_alpha c \<or> ascii_lower_alpha c)"

definition scheme_char :: "char \<Rightarrow> bool" where
  "scheme_char c =
     (ascii_alpha c \<or> ascii_digit c \<or> c = CHR ''+'' \<or> c = CHR ''-'' \<or> c = CHR ''.'')"

definition ascii_lower :: "char \<Rightarrow> char" where
  "ascii_lower c = (if ascii_upper_alpha c then char_of (of_char c + (32 :: nat)) else c)"

text \<open>\<open>_splitnetloc(url, 2)\<close>: the authority runs from index 2 to the first of \<open>/\<close>, \<open>?\<close> and
  \<open>#\<close>.\<close>

definition netloc_delim :: "char \<Rightarrow> bool" where
  "netloc_delim c = (c = CHR ''/'' \<or> c = CHR ''?'' \<or> c = CHR ''#'')"

definition splitnetloc :: "string \<Rightarrow> string \<times> string" where
  "splitnetloc url =
     (takeWhile (\<lambda>c. \<not> netloc_delim c) (drop 2 url),
      dropWhile (\<lambda>c. \<not> netloc_delim c) (drop 2 url))"

text \<open>\<open>netloc.partition('[')[2].partition(']')[0]\<close>.\<close>

definition bracketed_host :: "string \<Rightarrow> string" where
  "bracketed_host nl =
     takeWhile (\<lambda>c. c \<noteq> CHR '']'') (drop 1 (dropWhile (\<lambda>c. c \<noteq> CHR ''['') nl))"

text \<open>The first step of \<open>urlsplit\<close>: a leading scheme is split off when the text before the
  first colon is not empty, starts with an ASCII letter and consists of scheme characters.\<close>

definition split_scheme :: "string \<Rightarrow> string \<Rightarrow> string \<times> string" where
  "split_scheme url dflt =
     (let pre = takeWhile (\<lambda>c. c \<noteq> CHR '':'') url
      in if CHR '':'' \<in> set url \<and> (case pre of [] \<Rightarrow> False | c # _ \<Rightarrow> ascii_alpha c)
            \<and> list_all scheme_char pre
         then (map ascii_lower pre, drop (Suc (length pre)) url)
         else (dflt, url))"

text \<open>The last step of \<open>urlsplit\<close>: fragment and query are cut off the rest.\<close>

definition split_tail :: "string \<Rightarrow> string \<Rightarrow> string \<Rightarrow> split_result" where
  "split_tail sch nl url =
     (let (url1, frag) = (if CHR ''#'' \<in> set url then py_split1 (CHR ''#'') url else (url, []));
          (url2, qry) = (if CHR ''?'' \<in> set url1 then py_split1 (CHR ''?'') url1 else (url1, []))
      in \<lparr>scheme = sch, netloc = nl, path = url2, query = qry, fragment = frag\<rparr>)"

definition urlsplit :: "(string \<Rightarrow> bool) \<Rightarrow> string \<Rightarrow> string \<Rightarrow> exn + split_result" where
  "urlsplit chk url dflt =
     (let url1 = filter (\<lambda>c. \<not> is_unsafe_byte c) (py_lstrip_chars is_c0_or_space url);
          dflt1 = filter (\<lambda>c. \<not> is_unsafe_byte c) (py_strip_chars is_c0_or_space dflt);
          (sch, url2) = split_scheme url1 dflt1
      in if take 2 url2 = ''//''
         then (let (nl, rest) = splitnetloc url2
               in if (CHR ''['' \<in> set nl \<and> CHR '']'' \<notin> set nl)
                     \<or> (CHR '']'' \<in> set nl \<and> CHR ''['' \<notin> set nl)
                  then Inl (value_error ''Invalid IPv6 URL'')
                  else if CHR ''['' \<in> set nl \<and> CHR '']'' \<in> set nl \<and> \<not> chk (bracketed_host nl)
                  then Inl (value_error ''Invalid bracketed host'')
                  else Inr (split_tail sch nl rest))
         else Inr (split_tail sch [] url2))"

definition uses_params :: "string list" where
  "uses_params = ['''', ''ftp'', ''hdl'', ''prospero'', ''http'', ''imap'', ''https'', ''shttp'',
     ''rtsp'', ''rtsps'', ''rtspu'', ''sip'', ''sips'', ''mms'', ''sftp'', ''tel'']"

definition uses_relative :: "string list" where
  "uses_relative = ['''', ''ftp'', ''http'', ''gopher'', ''nntp'', ''imap'', ''wais'', ''file'',
     ''https'', ''shttp'', ''mms'', ''prospero'', ''rtsp'', ''rtsps'', ''rtspu'', ''sftp'',
     ''svn'', ''svn+ssh'', ''ws'', ''wss'']"

definition uses_netloc :: "string list" where
  "uses_netloc = ['''', ''ftp'', ''http'', ''gopher'', ''nntp'', ''telnet'', ''imap'', ''wais'',
     ''file'', ''mms'', ''https'', ''shttp'', ''snews'', ''prospero'', ''rtsp'', ''rtsps'',
     ''rtspu'', ''rsync'', ''svn'', ''svn+ssh'', ''sftp'', ''nfs'', ''git'', ''git+ssh'', ''ws'',
     ''wss'']"

text \<open>\<open>_splitparams\<close>, which \<open>urlparse\<close> calls on a path with a semicolon: the parameters
  follow the first semicolon of the last path segment.\<close>

definition splitparams :: "string \<Rightarrow> string \<times> string" where
  "splitparams url =
     (let last_seg = rev (takeWhile (\<lambda>c. c \<noteq> CHR ''/'') (rev url));
          front = take (length url - length last_seg) url
      in if CHR ''/'' \<in> set url \<and> CHR '';'' \<notin> set last_seg then (url, [])
         else (front @ takeWhile (\<lambda>c. c \<noteq> CHR '';'') last_seg,
               drop 1 (dropWhile (\<lambda>c. c \<noteq> CHR '';'') last_seg)))"

definition urlparse :: "(string \<Rightarrow> bool) \<Rightarrow> string \<Rightarrow> string \<Rightarrow> exn + parse_result" where
  "urlparse chk url dflt =
     (case urlsplit chk url dflt of
        Inl e \<Rightarrow> Inl e
      | Inr r \<Rightarrow>
          (let (url1, prm) =
                 (if scheme r \<in> set uses_params \<and> CHR '';'' \<in> set (path r)
                  then splitparams (path r) else (path r, []))
           in Inr \<lparr>scheme = scheme r, netloc = netloc r, path = url1, query = query r,
                   fragment = fragment r, params = prm\<rparr>))"

section \<open>The URL validator\<close>

text \<open>\<open>OpenAIAPIClient.validate_url\<close> of \<open>app.py\<close> (lines 26 to 40).\<close>

definition validate_url_app :: "(string \<Rightarrow> bool) \<Rightarrow> string \<Rightarrow> bool" where
  "validate_url_app chk url =
     (let url1 = py_strip url
      in if url1 = [] then False
         else (case urlparse chk url1 [] of
                 Inl e \<Rightarrow> False
               | Inr parsed \<Rightarrow>
                   if scheme parsed \<notin> set [''http'', ''https''] then False
                   else if netloc parsed = [] then False
                   else True))"

text \<open>\<open>OpenAIAPIClient.validate_url\<close> of \<open>main.py\<close> (lines 39 to 45).\<close>

definition validate_url_main :: "(string \<Rightarrow> bool) \<Rightarrow> string \<Rightarrow> bool" where
  "validate_url_main chk url =
     (case urlparse chk (py_strip url) [] of
        Inl e \<Rightarrow> False
      | Inr parsed \<Rightarrow> scheme parsed \<in> set [''http'', ''https''] \<and> netloc parsed \<noteq> [])"

section \<open>Joining URLs\<close>

definition urlunsplit :: "string \<Rightarrow> string \<Rightarrow> string \<Rightarrow> string \<Rightarrow> string \<Rightarrow> string" where
  "urlunsplit sch nl url qry frag =
     (let url1 =
            (if nl \<noteq> [] \<or> (sch \<noteq> [] \<and> sch \<in> set uses_netloc) \<or> take 2 url = ''//''
             then ''//'' @ nl
                    @ (if url \<noteq> [] \<and> take 1 url \<noteq> ''/'' then CHR ''/'' # url else url)
             else url);
          url2 = (if sch \<noteq> [] then sch @ CHR '':'' # url1 else url1);
          url3 = (if qry \<noteq> [] then url2 @ CHR ''?'' # qry else url2)
      in if frag \<noteq> [] then url3 @ CHR ''#'' # frag else url3)"

definition urlunparse ::
  "string \<Rightarrow> string \<Rightarrow> string \<Rightarrow> string \<Rightarrow> string \<Rightarrow> string \<Rightarrow> string" where
  "urlunparse sch nl url prm qry frag =
     urlunsplit sch nl (if prm \<noteq> [] then url @ CHR '';'' # prm else url) qry frag"

text \<open>The loop of \<open>urljoin\<close> over the segments: \<open>..\<close> pops the last resolved segment (and is
  ignored when there is none), \<open>.\<close> is skipped, anything else is appended.\<close>

fun resolve_segments :: "string list \<Rightarrow> string list \<Rightarrow> string list" where
  "resolve_segments [] acc = acc"
| "resolve_segments (seg # segs) acc =
     (if seg = ''..'' then resolve_segments segs (butlast acc)
      else if seg = ''.'' then resolve_segments segs acc
      else resolve_segments segs (acc @ [seg]))"

text \<open>\<open>segments[1:-1] = filter(None, segments[1:-1])\<close>: the empty segments between the first
  and the last are dropped.\<close>

definition filter_middle :: "string list \<Rightarrow> string list" where
  "filter_middle segs =
     (case segs of
        [] \<Rightarrow> []
      | [s] \<Rightarrow> [s]
      | s # rest \<Rightarrow> s # filter (\<lambda>x. x \<noteq> []) (butlast rest) @ [last rest])"

definition urljoin :: "(string \<Rightarrow> bool) \<Rightarrow> string \<Rightarrow> string \<Rightarrow> exn + string" where
  "urljoin chk base url =
     (if base = [] then Inr url
      else if url = [] then Inr base
      else (case urlparse chk base [] of
              Inl e \<Rightarrow> Inl e
            | Inr b \<Rightarrow>
                (case urlparse chk url (scheme b) of
                   Inl e \<Rightarrow> Inl e
                 | Inr u \<Rightarrow>
                     if scheme u \<noteq> scheme b \<or> scheme u \<notin> set uses_relative then Inr url
                     else if scheme u \<in> set uses_netloc \<and> netloc u \<noteq> []
                     then Inr (urlunparse (scheme u) (netloc u) (path u) (params u) (query u)
                                 (fragment u))
                     else
                       (let nl = (if scheme u \<in> set uses_netloc then netloc b else netloc u)
                        in if path u = [] \<and> params u = []
                           then Inr (urlunparse (scheme u) nl (path b) (params b)
                                       (if query u = [] then query b else query u) (fragment u))
                           else
                             (let parts = py_split (CHR ''/'') (path b);
                                  base_parts = (if last parts \<noteq> [] then butlast parts else parts);
                                  segments =
                                    (if take 1 (path u) = ''/'' then py_split (CHR ''/'') (path u)
                                     else filter_middle (base_parts @ py_split (CHR ''/'') (path u)));
                                  resolved = resolve_segments segments [];
                                  resolved1 =
                                    (if last segments = ''.'' \<or> last segments = ''..''
                                     then resolved @ [[]] else resolved);
                                  joined = py_join (CHR ''/'') resolved1
                              in Inr (urlunparse (scheme u) nl
                                        (if joined = [] then ''/'' else joined)
                                        (params u) (query u) (fragment u)))))))"

section \<open>JSON values and responses\<close>

text \<open>
  What \<open>json.loads\<close> and \<open>response.json()\<close> return: \<open>JNull\<close> is Python's \<open>None\<close>, \<open>JArr\<close> a
  \<open>list\<close>, \<open>JObj\<close> a \<open>dict\<close> given by its items, whose keys are distinct.  The program never
  computes with a number, so numbers are kept as integers.
\<close>

datatype json =
    JNull
  | JBool bool
  | JNum int
  | JStr string
  | JArr "json list"
  | JObj "(string \<times> json) list"

text \<open>\<open>d.get(k, dflt)\<close> on the items of a dict.\<close>

definition dict_get :: "(string \<times> json) list \<Rightarrow> string \<Rightarrow> json \<Rightarrow> json" where
  "dict_get items k dflt = (case map_of items k of None \<Rightarrow> dflt | Some v \<Rightarrow> v)"

text \<open>Truth value of a Python object, as \<open>if not models\<close> tests it.\<close>

fun truthy :: "json \<Rightarrow> bool" where
  "truthy JNull = False"
| "truthy (JBool b) = b"
| "truthy (JNum n) = (n \<noteq> 0)"
| "truthy (JStr s) = (s \<noteq> [])"
| "truthy (JArr xs) = (xs \<noteq> [])"
| "truthy (JObj items) = (items \<noteq> [])"

text \<open>
  A response of the server, as far as the client reads it: the status code and what
  \<open>response.json()\<close> does, which is to raise or to return the parsed body.  A call of
  \<open>requests.get\<close> either raises or returns a response.
\<close>

record response =
  status_code :: int
  json_body :: "exn + json"

datatype transport = Raises exn | Responds response

section \<open>The API client\<close>

text \<open>
  Every \<open>raise APIError(...)\<close> of the program is one constructor, with the values its message
  interpolates: the time-out handler (\<open>Timeout\<close>), the connection-error handler
  (\<open>ConnectionFailed\<close>, with \<open>str(e)\<close>), the handler of the other request exceptions
  (\<open>NetworkError\<close>, with \<open>str(e)\<close>), status 401 (\<open>Unauthorized\<close>), status 404 (\<open>NotFound\<close>, with
  the endpoint), status 500 (\<open>ServerError\<close>), any other status but 200 (\<open>UnexpectedStatus\<close>,
  with the code), a body that does not parse (\<open>MalformedResponse\<close>, with \<open>str(e)\<close>), a body of
  the wrong shape (\<open>InvalidSchema\<close>, with the fault the message names) and the last handler
  (\<open>Unknown\<close>, with \<open>str(e)\<close>).
\<close>

datatype schema_fault = NotAnObject | MissingData | DataNotArray | NoValidData

datatype api_error =
    Timeout
  | ConnectionFailed string
  | NetworkError string
  | Unauthorized
  | NotFound string
  | ServerError
  | UnexpectedStatus int
  | MalformedResponse string
  | InvalidSchema schema_fault
  | Unknown string

text \<open>What the body of a \<open>try\<close> block raises: the program's \<open>APIError\<close> or another exception.\<close>

datatype raised = Api api_error | Exc exn

record client =
  base_url :: string
  api_key :: "string option"

text \<open>\<open>OpenAIAPIClient.__init__\<close> (the same in both files): an absent or empty key is \<open>None\<close>.\<close>

definition new_client :: "string \<Rightarrow> string option \<Rightarrow> client" where
  "new_client url key =
     \<lparr>base_url = py_strip url,
      api_key = (case key of None \<Rightarrow> None
                 | Some k \<Rightarrow> if k = [] then None else Some (py_strip k))\<rparr>"

text \<open>\<open>urljoin(self.base_url.rstrip('/') + '/', 'models')\<close> (the same in both files).\<close>

definition endpoint_of :: "(string \<Rightarrow> bool) \<Rightarrow> client \<Rightarrow> exn + string" where
  "endpoint_of chk c =
     urljoin chk (py_rstrip_chars (\<lambda>x. x = CHR ''/'') (base_url c) @ ''/'') ''models''"

definition headers_of :: "client \<Rightarrow> (string \<times> string) list" where
  "headers_of c =
     (case api_key c of
        None \<Rightarrow> [(''Accept'', ''application/json'')]
      | Some k \<Rightarrow>
          if k = [] then [(''Accept'', ''application/json'')]
          else [(''Accept'', ''application/json''), (''Authorization'', ''Bearer '' @ k)])"

text \<open>
  The network is a parameter: \<open>net url timeout headers\<close> is what
  \<open>requests.get(url, timeout=..., headers=...)\<close> does.
\<close>

type_synonym network = "string \<Rightarrow> nat \<Rightarrow> (string \<times> string) list \<Rightarrow> transport"

text \<open>The \<open>try\<close> block of \<open>fetch_models\<close> in \<open>app.py\<close> (lines 45 to 77).\<close>

definition fetch_body_app :: "(string \<Rightarrow> bool) \<Rightarrow> network \<Rightarrow> client \<Rightarrow> raised + json" where
  "fetch_body_app chk net c =
     (case endpoint_of chk c of
        Inl e \<Rightarrow> Inl (Exc e)
      | Inr endpoint \<Rightarrow>
          (case net endpoint 30 (headers_of c) of
             Raises e \<Rightarrow> Inl (Exc e)
           | Responds resp \<Rightarrow>
               if status_code resp = 401 then Inl (Api Unauthorized)
               else if status_code resp = 404 then Inl (Api (NotFound endpoint))
               else if status_code resp = 500 then Inl (Api ServerError)
               else if status_code resp \<noteq> 200 then Inl (Api (UnexpectedStatus (status_code resp)))
               else
                 (case json_body resp of
                    Inl e \<Rightarrow>
                      if is_value_error e then Inl (Api (MalformedResponse (text_of e)))
                      else Inl (Exc e)
                  | Inr data \<Rightarrow>
                      (case data of
                         JObj items \<Rightarrow>
                           (case map_of items ''data'' of
                              None \<Rightarrow> Inl (Api (InvalidSchema MissingData))
                            | Some (JArr xs) \<Rightarrow> Inr data
                            | Some _ \<Rightarrow> Inl (Api (InvalidSchema DataNotArray)))
                       | _ \<Rightarrow> Inl (Api (InvalidSchema NotAnObject))))))"

text \<open>The handlers of \<open>fetch_models\<close> in \<open>app.py\<close> (lines 79 to 88), in their order.\<close>

definition fetch_models_app :: "(string \<Rightarrow> bool) \<Rightarrow> network \<Rightarrow> client \<Rightarrow> api_error + json" where
  "fetch_models_app chk net c =
     (case fetch_body_app chk net c of
        Inr data \<Rightarrow> Inr data
      | Inl (Exc e) \<Rightarrow>
          if is_timeout e then Inl Timeout
          else if is_connection_error e then Inl (ConnectionFailed (text_of e))
          else if is_request_exception e then Inl (NetworkError (text_of e))
          else Inl (Unknown (text_of e))
      | Inl (Api a) \<Rightarrow> Inl a)"

text \<open>The \<open>try\<close> block of \<open>fetch_models\<close> in \<open>main.py\<close> (lines 49 to 66).  \<open>data.get\<close> exists
  only on a dict; on any other value the attribute access raises \<open>AttributeError\<close>, whose text
  (it names the type of the value) is abbreviated here.\<close>

definition fetch_body_main :: "(string \<Rightarrow> bool) \<Rightarrow> network \<Rightarrow> client \<Rightarrow> raised + json" where
  "fetch_body_main chk net c =
     (case endpoint_of chk c of
        Inl e \<Rightarrow> Inl (Exc e)
      | Inr endpoint \<Rightarrow>
          (case net endpoint 30 (headers_of c) of
             Raises e \<Rightarrow> Inl (Exc e)
           | Responds resp \<Rightarrow>
               if status_code resp = 401 then Inl (Api Unauthorized)
               else if status_code resp = 404 then Inl (Api (NotFound endpoint))
               else if status_code resp = 500 then Inl (Api ServerError)
               else if status_code resp \<noteq> 200 then Inl (Api (UnexpectedStatus (status_code resp)))
               else
                 (case json_body resp of
                    Inl e \<Rightarrow> Inl (Exc e)
                  | Inr data \<Rightarrow>
                      (case data of
                         JObj items \<Rightarrow>
                           (case dict_get items ''data'' JNull of
                              JArr xs \<Rightarrow> Inr data
                            | _ \<Rightarrow> Inl (Api (InvalidSchema NoValidData)))
                       | _ \<Rightarrow> Inl (Exc (attribute_error ''object has no attribute get''))))))"

text \<open>The handlers of \<open>fetch_models\<close> in \<open>main.py\<close> (lines 68 to 79), in their order.\<close>

definition fetch_models_main :: "(string \<Rightarrow> bool) \<Rightarrow> network \<Rightarrow> client \<Rightarrow> api_error + json" where
  "fetch_models_main chk net c =
     (case fetch_body_main chk net c of
        Inr data \<Rightarrow> Inr data
      | Inl (Exc e) \<Rightarrow>
          if is_timeout e then Inl Timeout
          else if is_connection_error e then Inl (ConnectionFailed (text_of e))
          else if is_request_exception e then Inl (NetworkError (text_of e))
          else if is_value_error e \<or> is_key_error e then Inl (MalformedResponse (text_of e))
          else Inl (Unknown (text_of e))
      | Inl (Api a) \<Rightarrow> Inl a)"

section \<open>The configuration files\<close>

text \<open>
  A file is in one of three states: it cannot be read (the read raises), it holds text that
  \<open>json.loads\<close> rejects, or it holds a JSON document.  Writing a document and parsing it
  again gives the document back.
\<close>

datatype disk_file = Unreadable | NotJson | Doc json

definition os_error :: "string \<Rightarrow> exn" where
  "os_error msg =
     \<lparr>is_timeout = False, is_connection_error = False, is_request_exception = False,
      is_value_error = False, is_key_error = False, text_of = msg\<rparr>"

text \<open>The dict that \<open>load\<close> returns, with its two keys; \<open>JNull\<close> is \<open>None\<close>.\<close>

record config =
  cfg_base_url :: json
  cfg_api_key :: json

definition no_config :: config where
  "no_config = \<lparr>cfg_base_url = JNull, cfg_api_key = JNull\<rparr>"

text \<open>The document that both \<open>save\<close> and \<open>save_config\<close> write: \<open>api_key or ""\<close> stores an
  absent key as the empty string; \<open>now\<close> is \<open>datetime.now().isoformat()\<close>.\<close>

definition config_doc :: "string \<Rightarrow> string option \<Rightarrow> string \<Rightarrow> json" where
  "config_doc url key now =
     JObj [(''base_url'', JStr url),
           (''api_key'', JStr (case key of None \<Rightarrow> [] | Some k \<Rightarrow> k)),
           (''last_updated'', JStr now)]"

text \<open>Reading and parsing one file, and building the dict, as both \<open>load\<close> and \<open>load_config\<close>
  do inside their \<open>try\<close>.\<close>

definition read_config :: "disk_file \<Rightarrow> exn + config" where
  "read_config f =
     (case f of
        Unreadable \<Rightarrow> Inl (os_error ''cannot read'')
      | NotJson \<Rightarrow> Inl (value_error ''JSONDecodeError'')
      | Doc d \<Rightarrow>
          (case d of
             JObj items \<Rightarrow>
               Inr \<lparr>cfg_base_url = dict_get items ''base_url'' JNull,
                    cfg_api_key = dict_get items ''api_key'' (JStr [])\<rparr>
           | _ \<Rightarrow> Inl (attribute_error ''object has no attribute get'')))"

subsection \<open>\<open>ConfigManager\<close> of \<open>main.py\<close> (lines 82 to 114)\<close>

text \<open>
  \<open>_get_path(name)\<close> is \<open>self.config_dir / f"{name}.json"\<close>, for any text \<open>name\<close>: the
  program never tests a name for path separators.  A path that \<open>pathlib\<close> builds this way
  on a POSIX system is modelled by its root and its components.  The root is empty when the
  path stays relative to the directory \<open>~/.openai_model_fetcher\<close>, and \<open>/\<close> or \<open>//\<close> when the
  text is absolute and so replaces the directory.  The components are the pieces of the text
  between slashes, without the empty pieces and without the pieces \<open>.\<close> (a piece \<open>..\<close> is
  kept).  Two paths are the same file exactly when they are equal; what the operating system
  identifies beyond that (links, \<open>..\<close> through a directory that exists) is not modelled.
\<close>

type_synonym file_path = "string \<times> string list"

definition get_path :: "string \<Rightarrow> file_path" where
  "get_path name =
     (let s = name @ ''.json''
      in (if take 2 s = ''//'' \<and> take 3 s \<noteq> ''///'' then ''//''
          else if take 1 s = ''/'' then ''/''
          else [],
          filter (\<lambda>c. c \<noteq> [] \<and> c \<noteq> ''.'') (py_split (CHR ''/'') s)))"

text \<open>
  The state of the disk, as far as the \<open>ConfigManager\<close> sees it: the file at each path (\<open>None\<close>
  where \<open>exists()\<close> is false), the exception that \<open>write_text\<close> raises at each path (\<open>None\<close>
  where the file is written: a \<open>FileNotFoundError\<close> for a path in a directory that does not
  exist, a \<open>PermissionError\<close> where writing is not allowed), and the exception that
  \<open>unlink(missing_ok=True)\<close> raises at each path (\<open>None\<close> where the file is removed or was
  not there).  A write that raises leaves the file as it was.
\<close>

record config_dir =
  files :: "file_path \<rightharpoonup> disk_file"
  write_raises :: "file_path \<Rightarrow> exn option"
  unlink_raises :: "file_path \<Rightarrow> exn option"

text \<open>\<open>save\<close> has no \<open>try\<close>: what \<open>write_text\<close> raises leaves the method, and nothing is
  stored.\<close>

definition save ::
  "config_dir \<Rightarrow> string \<Rightarrow> string \<Rightarrow> string option \<Rightarrow> string \<Rightarrow> exn + config_dir" where
  "save dir name url key now =
     (case write_raises dir (get_path name) of
        Some e \<Rightarrow> Inl e
      | None \<Rightarrow>
          Inr (dir\<lparr>files := (files dir)(get_path name \<mapsto> Doc (config_doc url key now))\<rparr>))"

definition load :: "config_dir \<Rightarrow> string \<Rightarrow> config" where
  "load dir name =
     (case files dir (get_path name) of
        None \<Rightarrow> no_config
      | Some f \<Rightarrow> (case read_config f of Inl e \<Rightarrow> no_config | Inr c \<Rightarrow> c))"

definition delete :: "config_dir \<Rightarrow> string \<Rightarrow> exn + config_dir" where
  "delete dir name =
     (case unlink_raises dir (get_path name) of
        Some e \<Rightarrow> Inl e
      | None \<Rightarrow> Inr (dir\<lparr>files := (files dir)(get_path name := None)\<rparr>))"

text \<open>\<open>PurePath.stem\<close> of a file name: the name without its last suffix; a name whose only
  dot is the first or the last character has no suffix.\<close>

definition stem :: "string \<Rightarrow> string" where
  "stem f =
     (let i = length f - length (takeWhile (\<lambda>x. x \<noteq> CHR ''.'') (rev f)) - 1
      in if CHR ''.'' \<in> set f \<and> 0 < i \<and> i < length f - 1 then take i f else f)"

text \<open>The file names that the pattern \<open>*.json\<close> matches.\<close>

definition json_name :: "string \<Rightarrow> bool" where
  "json_name f = (5 \<le> length f \<and> drop (length f - 5) f = ''.json'')"

text \<open>\<open>list_profiles\<close>: the stems of the files directly in the directory that match
  \<open>*.json\<close>; the order of \<open>glob\<close> is not modelled.\<close>

definition list_profiles :: "config_dir \<Rightarrow> string set" where
  "list_profiles dir = stem ` {f. files dir ([], [f]) \<noteq> None \<and> json_name f}"

subsection \<open>\<open>ConfigManager\<close> of \<open>app.py\<close> (lines 93 to 155)\<close>

text \<open>
  There is one file, \<open>config.json\<close>: \<open>None\<close> when it does not exist.  \<open>save_config\<close> and
  \<open>clear_config\<close> take what opening the file for writing, or removing it, raises (\<open>None\<close> when
  it succeeds); they catch it and raise an exception of their own in its place, whose
  Chinese text is given in English here.
\<close>

definition save_config ::
  "exn option \<Rightarrow> string \<Rightarrow> string option \<Rightarrow> string \<Rightarrow> exn + disk_file option" where
  "save_config raises url key now =
     (case raises of
        Some e \<Rightarrow> Inl (os_error (''cannot save the configuration: '' @ text_of e))
      | None \<Rightarrow>
          Inr (Some (Doc (config_doc url (case key of None \<Rightarrow> None
                                         | Some k \<Rightarrow> if k = [] then None else Some k) now))))"

definition load_config :: "disk_file option \<Rightarrow> config" where
  "load_config cf =
     (case cf of
        None \<Rightarrow> no_config
      | Some f \<Rightarrow> (case read_config f of Inl e \<Rightarrow> no_config | Inr c \<Rightarrow> c))"

definition clear_config :: "exn option \<Rightarrow> disk_file option \<Rightarrow> exn + disk_file option" where
  "clear_config raises cf =
     (case cf of
        None \<Rightarrow> Inr None
      | Some f \<Rightarrow>
          (case raises of
             Some e \<Rightarrow> Inl (os_error (''cannot clear the configuration: '' @ text_of e))
           | None \<Rightarrow> Inr None))"

section \<open>The profiles page of \<open>main.py\<close>\<close>

text \<open>The name that \<open>_refresh_list\<close> gives the profile it creates in an empty directory: the
  two-character Chinese word for default (U+9ED8 U+8BA4), here as its six UTF-8 bytes.\<close>

definition default_cn :: string where
  "default_cn = [CHR 0xE9, CHR 0xBB, CHR 0x98, CHR 0xE8, CHR 0xAE, CHR 0xA4]"

text \<open>\<open>ProfilesPage._refresh_list\<close> (lines 449 to 482): the names it shows, and the directory
  afterwards; or the exception of the \<open>save\<close>, which leaves the method before a name is
  shown.\<close>

definition refresh_list :: "string \<Rightarrow> config_dir \<Rightarrow> exn + string set \<times> config_dir" where
  "refresh_list now dir =
     (if list_profiles dir = {}
      then (case save dir default_cn [] (Some []) now of
              Inl e \<Rightarrow> Inl e
            | Inr dir' \<Rightarrow> Inr ({default_cn}, dir'))
      else Inr (list_profiles dir, dir))"

text \<open>\<open>ProfilesPage._delete_profile\<close> (lines 489 to 496): the exception that leaves the
  method, if any, and the directory afterwards.\<close>

definition delete_profile :: "string \<Rightarrow> string \<Rightarrow> config_dir \<Rightarrow> exn option \<times> config_dir" where
  "delete_profile now name dir =
     (if name = ''default'' then (None, dir)
      else (case delete dir name of
              Inl e \<Rightarrow> (Some e, dir)
            | Inr dir1 \<Rightarrow>
                (case refresh_list now dir1 of
                   Inl e \<Rightarrow> (Some e, dir1)
                 | Inr (names, dir2) \<Rightarrow> (None, dir2))))"

text \<open>\<open>ProfilesPage._create_profile\<close> (lines 435 to 447), likewise.  The name is whatever
  was typed, stripped.\<close>

definition create_profile :: "string \<Rightarrow> string \<Rightarrow> config_dir \<Rightarrow> exn option \<times> config_dir" where
  "create_profile now entry dir =
     (let name = py_strip entry
      in if name = [] then (None, dir)
         else if name \<in> list_profiles dir then (None, dir)
         else (case save dir name [] (Some []) now of
                 Inl e \<Rightarrow> (Some e, dir)
               | Inr dir1 \<Rightarrow>
                   (case refresh_list now dir1 of
                      Inl e \<Rightarrow> (Some e, dir1)
                    | Inr (names, dir2) \<Rightarrow> (None, dir2))))"

section \<open>Fetching from the home page\<close>

datatype validation = EmptyUrl | InvalidUrl

text \<open>
  How one fetch ends: the input is rejected; the client fails and the error is shown; the
  result has no models; the models are shown (with their number) and the configuration is
  saved; the models are shown and the save raises; or the handler of the result raises
  before the save.
\<close>

datatype outcome =
    Rejected validation
  | Failed api_error
  | NoModels
  | Succeeded nat
  | Unsaved nat exn
  | Crashed exn

text \<open>\<open>m.get("id", "Unknown")\<close> for one element of the list.\<close>

definition get_id :: "json \<Rightarrow> exn + json" where
  "get_id m =
     (case m of
        JObj items \<Rightarrow> Inr (dict_get items ''id'' (JStr ''Unknown''))
      | _ \<Rightarrow> Inl (attribute_error ''object has no attribute get''))"

subsection \<open>\<open>HomePage\<close> of \<open>main.py\<close>\<close>

record home =
  url_entry :: string
  key_entry :: string
  current_profile :: string
  all_models :: "json list"
  model_ids :: "json list"
  disk :: config_dir

text \<open>The comprehension \<open>[m.get("id", "Unknown") for m in models]\<close>: it raises at the first
  element that has no \<open>get\<close>, and then no list is built.\<close>

fun ids_of :: "json list \<Rightarrow> exn + json list" where
  "ids_of [] = Inr []"
| "ids_of (m # ms) =
     (case get_id m of
        Inl e \<Rightarrow> Inl e
      | Inr i \<Rightarrow> (case ids_of ms of Inl e \<Rightarrow> Inl e | Inr ids \<Rightarrow> Inr (i # ids)))"

definition clear_models :: "home \<Rightarrow> home" where
  "clear_models st = st\<lparr>all_models := [], model_ids := []\<rparr>"

text \<open>
  \<open>HomePage._on_success\<close> (lines 286 to 298), run on the window as it is when the signal is
  delivered.  The profile, the URL and the key that are saved are read from the window at
  that moment.  The \<open>save\<close> is the last statement and stands in no \<open>try\<close>: when it raises, the
  models are already shown.
\<close>

definition on_success :: "string \<Rightarrow> json \<Rightarrow> home \<Rightarrow> outcome \<times> home" where
  "on_success now result st =
     (case result of
        JObj items \<Rightarrow>
          (let models = dict_get items ''data'' (JArr [])
           in if \<not> truthy models then (NoModels, st)
              else (case models of
                      JArr ms \<Rightarrow>
                        (case ids_of ms of
                           Inl e \<Rightarrow> (Crashed e, st)
                         | Inr ids \<Rightarrow>
                             (case save (disk st) (current_profile st)
                                     (py_strip (url_entry st))
                                     (Some (py_strip (key_entry st))) now of
                                Inl e \<Rightarrow>
                                  (Unsaved (length ms) e,
                                   st\<lparr>all_models := ids, model_ids := ids\<rparr>)
                              | Inr dir \<Rightarrow>
                                  (Succeeded (length ms),
                                   st\<lparr>all_models := ids, model_ids := ids, disk := dir\<rparr>)))
                    | _ \<Rightarrow> (Crashed (attribute_error ''object has no attribute get''), st)))
      | _ \<Rightarrow> (Crashed (attribute_error ''object has no attribute get''), st))"

text \<open>\<open>HomePage._on_error\<close> (lines 300 to 306) shows the message and changes nothing else.\<close>

definition on_error :: "api_error \<Rightarrow> home \<Rightarrow> outcome \<times> home" where
  "on_error e st = (Failed e, st)"

text \<open>
  \<open>HomePage._fetch\<close> (lines 265 to 284), its worker thread, and the slot that the worker's
  signal reaches.  \<open>_fetch\<close> strips and validates the URL and clears the models.  The worker
  runs later: it reads the key from the window as it is then, and calls the client with the
  URL that \<open>_fetch\<close> validated.  The slot runs later again, on the window as it is then.
  \<open>before_worker\<close> and \<open>before_slot\<close> are what happens to the window in between (typing in
  an entry, switching the profile, the other pages writing to the directory); the identity
  when nothing happens.  The worker emits the error signal inside its \<open>except\<close> block, with
  the text of the error.
\<close>

definition fetch ::
  "(string \<Rightarrow> bool) \<Rightarrow> network \<Rightarrow> string \<Rightarrow> (home \<Rightarrow> home) \<Rightarrow> (home \<Rightarrow> home) \<Rightarrow> home
     \<Rightarrow> outcome \<times> home" where
  "fetch chk net now before_worker before_slot st =
     (let url = py_strip (url_entry st)
      in if url = [] then (Rejected EmptyUrl, st)
         else if \<not> validate_url_main chk url then (Rejected InvalidUrl, st)
         else (let st1 = before_worker (clear_models st);
                   r = fetch_models_main chk net (new_client url (Some (py_strip (key_entry st1))));
                   st2 = before_slot st1
               in case r of
                    Inl e \<Rightarrow> on_error e st2
                  | Inr result \<Rightarrow> on_success now result st2))"

subsection \<open>\<open>ModelFetcherApp\<close> of \<open>app.py\<close>\<close>

text \<open>The window of \<open>app.py\<close>, with the one configuration file and what writing it
  raises.\<close>

record app =
  url_field :: string
  key_field :: string
  shown_ids :: "json list"
  config_file :: "disk_file option"
  config_write_raises :: "exn option"

text \<open>The loop of \<open>_on_fetch_success\<close> (lines 502 to 504): every model is added as soon as
  its id is read, so the models before a faulty element stay.\<close>

fun add_models :: "json list \<Rightarrow> json list \<Rightarrow> json list \<times> exn option" where
  "add_models [] ids = (ids, None)"
| "add_models (m # ms) ids =
     (case get_id m of
        Inl e \<Rightarrow> (ids, Some e)
      | Inr i \<Rightarrow> add_models ms (ids @ [i]))"

text \<open>
  \<open>ModelFetcherApp._on_fetch_success\<close> (lines 494 to 509), run on the window as it is when
  the callback runs: the URL and the key that are saved are read from the window at that
  moment.  \<open>_save_config\<close> (lines 555 to 559) catches what \<open>save_config\<close> raises and prints
  it.
\<close>

definition on_fetch_success :: "string \<Rightarrow> json \<Rightarrow> app \<Rightarrow> outcome \<times> app" where
  "on_fetch_success now result st =
     (case result of
        JObj items \<Rightarrow>
          (let models = dict_get items ''data'' (JArr [])
           in if \<not> truthy models then (NoModels, st)
              else (case models of
                      JArr ms \<Rightarrow>
                        (case add_models ms (shown_ids st) of
                           (ids, Some e) \<Rightarrow> (Crashed e, st\<lparr>shown_ids := ids\<rparr>)
                         | (ids, None) \<Rightarrow>
                             (case save_config (config_write_raises st)
                                     (py_strip (url_field st))
                                     (Some (py_strip (key_field st))) now of
                                Inl e \<Rightarrow> (Unsaved (length ms) e, st\<lparr>shown_ids := ids\<rparr>)
                              | Inr cf \<Rightarrow>
                                  (Succeeded (length ms),
                                   st\<lparr>shown_ids := ids, config_file := cf\<rparr>)))
                    | _ \<Rightarrow> (Crashed (attribute_error ''object has no attribute get''), st)))
      | _ \<Rightarrow> (Crashed (attribute_error ''object has no attribute get''), st))"

text \<open>The \<open>NameError\<close> that reading a variable without a value raises.\<close>

definition name_error :: "string \<Rightarrow> exn" where
  "name_error msg =
     \<lparr>is_timeout = False, is_connection_error = False, is_request_exception = False,
      is_value_error = False, is_key_error = False, text_of = msg\<rparr>"

text \<open>
  \<open>ModelFetcherApp.fetch_models_async\<close> (lines 464 to 492), its worker thread, and the
  callback that the worker hands to \<open>root.after\<close>.  The URL and the key are stripped and
  read before the thread starts.  The callback runs later, on the window as it is then;
  \<open>before_callback\<close> is what happens to the window in between.  When the client raises, the
  callback is \<open>lambda: self._on_fetch_error(str(e))\<close>, made inside \<open>except APIError as e\<close>:
  Python unbinds \<open>e\<close> at the end of the \<open>except\<close> block, the callback runs after it, and so
  reading \<open>e\<close> raises a \<open>NameError\<close> before \<open>_on_fetch_error\<close> is called.
\<close>

definition fetch_models_async ::
  "(string \<Rightarrow> bool) \<Rightarrow> network \<Rightarrow> string \<Rightarrow> (app \<Rightarrow> app) \<Rightarrow> app \<Rightarrow> outcome \<times> app" where
  "fetch_models_async chk net now before_callback st =
     (let url = py_strip (url_field st); key = py_strip (key_field st)
      in if url = [] then (Rejected EmptyUrl, st)
         else if \<not> validate_url_app chk url then (Rejected InvalidUrl, st)
         else (let r = fetch_models_app chk net (new_client url (Some key));
                   st1 = before_callback (st\<lparr>shown_ids := []\<rparr>)
               in case r of
                    Inl e \<Rightarrow>
                      (Crashed (name_error ''cannot access free variable e''), st1)
                  | Inr result \<Rightarrow> on_fetch_success now result st1))"

section \<open>Sample environments\<close>

text \<open>
  Concrete environments on which the statements below are evaluated: a library that accepts
  every bracketed host, a network that gives the same answer to every request, a response
  with a parsed body, an exception of the \<open>requests\<close> library, a new configuration
  directory, and the two windows with an address and a key typed in and nothing stored yet.
  In the new directory no file exists; a file can be written directly in it; a write below
  it raises \<open>FileNotFoundError\<close>, since it has no sub-directories, and in this sample so
  does a write at a path that leaves it; no removal raises.
\<close>

definition accept_hosts :: "string \<Rightarrow> bool" where
  "accept_hosts h = True"

definition answering :: "transport \<Rightarrow> network" where
  "answering t url timeout hdrs = t"

definition reply :: "int \<Rightarrow> json \<Rightarrow> transport" where
  "reply code body = Responds \<lparr>status_code = code, json_body = Inr body\<rparr>"

definition request_error :: "bool \<Rightarrow> bool \<Rightarrow> string \<Rightarrow> exn" where
  "request_error timeout conn msg =
     \<lparr>is_timeout = timeout, is_connection_error = conn, is_request_exception = True,
      is_value_error = False, is_key_error = False, text_of = msg\<rparr>"

definition new_dir :: config_dir where
  "new_dir =
     \<lparr>files = Map.empty,
      write_raises = (\<lambda>p. if fst p = [] \<and> length (snd p) = 1 then None
                          else Some (os_error ''FileNotFoundError'')),
      unlink_raises = (\<lambda>p. None)\<rparr>"

definition sample_home :: home where
  "sample_home =
     \<lparr>url_entry = ''https://api.example.com/v1'', key_entry = ''k'',
      current_profile = ''default'', all_models = [], model_ids = [], disk = new_dir\<rparr>"

definition sample_app :: app where
  "sample_app =
     \<lparr>url_field = ''https://api.example.com/v1'', key_field = ''k'', shown_ids = [],
      config_file = None, config_write_raises = None\<rparr>"

section \<open>Properties of the URL validator\<close>

lemma urlparse_empty:
  "urlparse chk [] [] =
     Inr \<lparr>scheme = [], netloc = [], path = [], query = [], fragment = [], params = []\<rparr>"
  by (simp add: urlparse_def urlsplit_def split_scheme_def split_tail_def py_lstrip_chars_def
      py_strip_chars_def py_rstrip_chars_def uses_params_def)

lemma py_strip_spaces: "list_all py_isspace s \<Longrightarrow> py_strip s = []"
  by (auto simp: py_strip_def py_strip_chars_def py_rstrip_chars_def py_lstrip_chars_def
      list_all_iff dest: set_dropWhileD)

lemma validate_url_main_iff:
  "validate_url_main chk url =
     (\<exists>p. urlparse chk (py_strip url) [] = Inr p
          \<and> (scheme p = ''http'' \<or> scheme p = ''https'') \<and> netloc p \<noteq> [])"
  by (auto simp: validate_url_main_def split: sum.splits)

lemma validate_url_app_iff:
  "validate_url_app chk url =
     (\<exists>p. urlparse chk (py_strip url) [] = Inr p
          \<and> (scheme p = ''http'' \<or> scheme p = ''https'') \<and> netloc p \<noteq> [])"
proof (cases "py_strip url = []")
  case True
  then show ?thesis
    by (simp add: validate_url_app_def urlparse_empty)
next
  case False
  then show ?thesis
    by (auto simp: validate_url_app_def split: sum.splits)
qed

lemma strip_example: "py_strip ''  http://host  '' = ''http://host''"
  by code_simp

lemma urlparse_example:
  "urlparse (\<lambda>h. True) ''http://host'' [] =
     Inr \<lparr>scheme = ''http'', netloc = ''host'', path = [], query = [], fragment = [],
          params = []\<rparr>"
  by code_simp

lemma urlparse_raises_example:
  "urlparse (\<lambda>h. True) ''http://[::1'' [] = Inl (value_error ''Invalid IPv6 URL'')"
  by code_simp

lemma blanks_example: "list_all py_isspace ''   ''"
  by code_simp

lemma printable_facts:
  assumes "33 \<le> (of_char c :: nat)" "(of_char c :: nat) \<le> 126"
  shows "\<not> is_unsafe_byte c" "\<not> is_c0_or_space c" "\<not> py_isspace c"
  using assms by (auto simp: is_unsafe_byte_def is_c0_or_space_def py_isspace_def Let_def)

lemma split_tail_keeps: "scheme (split_tail sch nl u) = sch" "netloc (split_tail sch nl u) = nl"
  by (simp_all add: split_tail_def Let_def split: prod.splits)

lemma py_strip_prefix:
  assumes "a \<noteq> []" "\<not> py_isspace (hd a)" "\<not> py_isspace (last a)"
  shows "py_strip (a @ rest) = a @ py_rstrip_chars py_isspace rest"
proof -
  have l: "dropWhile py_isspace (a @ rest) = a @ rest"
    using assms by (cases a) auto
  have "dropWhile py_isspace (rev a) = rev a"
    using assms by (cases "rev a") (auto simp: hd_rev)
  then have "dropWhile py_isspace (rev rest @ rev a) = dropWhile py_isspace (rev rest) @ rev a"
    by (simp add: dropWhile_append)
  then show ?thesis
    using l by (simp add: py_strip_def py_strip_chars_def py_rstrip_chars_def py_lstrip_chars_def)
qed

lemma rstrip_keeps_delim:
  assumes "rest = [] \<or> netloc_delim (hd rest)"
  shows "py_rstrip_chars py_isspace rest = [] \<or> netloc_delim (hd (py_rstrip_chars py_isspace rest))"
proof (cases rest)
  case Nil
  then show ?thesis by (simp add: py_rstrip_chars_def)
next
  case (Cons x xs)
  with assms have d: "netloc_delim x" by simp
  then have ns: "\<not> py_isspace x"
    by (auto simp: netloc_delim_def py_isspace_def)
  have "dropWhile py_isspace (rev xs @ [x]) = dropWhile py_isspace (rev xs) @ [x]"
    using ns by (simp add: dropWhile_append)
  then have "py_rstrip_chars py_isspace rest = x # rev (dropWhile py_isspace (rev xs))"
    using Cons by (simp add: py_rstrip_chars_def)
  with d show ?thesis by simp
qed

lemma filter_keeps_delim:
  assumes "rest = [] \<or> netloc_delim (hd rest)"
  shows "filter (\<lambda>c. \<not> is_unsafe_byte c) rest = []
    \<or> netloc_delim (hd (filter (\<lambda>c. \<not> is_unsafe_byte c) rest))"
proof (cases rest)
  case Nil
  then show ?thesis by simp
next
  case (Cons x xs)
  with assms have d: "netloc_delim x" by simp
  then have "\<not> is_unsafe_byte x"
    by (auto simp: netloc_delim_def is_unsafe_byte_def)
  with Cons d show ?thesis by simp
qed

lemma urlparse_well_formed:
  assumes sch: "sch = ''http'' \<or> sch = ''https''"
    and host: "host \<noteq> []"
      "\<forall>c\<in>set host. 33 \<le> (of_char c :: nat) \<and> (of_char c :: nat) \<le> 126 \<and> \<not> netloc_delim c
          \<and> c \<noteq> CHR ''['' \<and> c \<noteq> CHR '']''"
    and rest: "rest = [] \<or> netloc_delim (hd rest)"
  shows "\<exists>p. urlparse chk (sch @ ''://'' @ host @ rest) [] = Inr p \<and> scheme p = sch \<and> netloc p = host"
proof -
  define R where "R = filter (\<lambda>c. \<not> is_unsafe_byte c) rest"
  have Rd: "R = [] \<or> netloc_delim (hd R)"
    unfolding R_def using rest by (rule filter_keeps_delim)
  have Hset: "\<forall>c\<in>set host. \<not> is_unsafe_byte c"
    using host by (auto simp: printable_facts)
  have filt: "filter (\<lambda>c. \<not> is_unsafe_byte c) (host @ rest) = host @ R"
    using Hset by (auto simp: R_def filter_id_conv)
  have tw: "takeWhile (\<lambda>c. \<not> netloc_delim c) (host @ R) = host"
    using host Rd by (cases R) (auto simp: takeWhile_append2)
  have dw: "dropWhile (\<lambda>c. \<not> netloc_delim c) (host @ R) = R"
    using host Rd by (cases R) (auto simp: dropWhile_append2)
  have br: "CHR ''['' \<notin> set host" "CHR '']'' \<notin> set host"
    using host by auto
  have split: "urlsplit chk (sch @ ''://'' @ host @ rest) [] = Inr (split_tail sch host R)"
    using sch
  proof
    assume "sch = ''http''"
    then show ?thesis
      using filt tw dw br
      by (simp add: urlsplit_def py_lstrip_chars_def is_c0_or_space_def is_unsafe_byte_def
          split_scheme_def splitnetloc_def ascii_alpha_def ascii_upper_alpha_def
          ascii_lower_alpha_def scheme_char_def ascii_lower_def ascii_digit_def)
  next
    assume "sch = ''https''"
    then show ?thesis
      using filt tw dw br
      by (simp add: urlsplit_def py_lstrip_chars_def is_c0_or_space_def is_unsafe_byte_def
          split_scheme_def splitnetloc_def ascii_alpha_def ascii_upper_alpha_def
          ascii_lower_alpha_def scheme_char_def ascii_lower_def ascii_digit_def)
  qed
  show ?thesis
    unfolding urlparse_def split
    by (simp add: split_tail_keeps Let_def split: prod.splits)
qed

lemma validate_url_well_formed:
  assumes sch: "sch = ''http'' \<or> sch = ''https''"
    and host: "host \<noteq> []"
      "\<forall>c\<in>set host. 33 \<le> (of_char c :: nat) \<and> (of_char c :: nat) \<le> 126 \<and> \<not> netloc_delim c
          \<and> c \<noteq> CHR ''['' \<and> c \<noteq> CHR '']''"
    and rest: "rest = [] \<or> netloc_delim (hd rest)"
  shows "validate_url_main chk (sch @ ''://'' @ host @ rest)"
proof -
  define A where "A = sch @ ''://'' @ host"
  have A: "A \<noteq> []" "\<not> py_isspace (hd A)"
    using sch by (auto simp: A_def py_isspace_def)
  have "last A = last host"
    using host(1) by (simp add: A_def)
  moreover have "last host \<in> set host"
    using host(1) by simp
  ultimately have "\<not> py_isspace (last A)"
    using host(2) by (auto simp: printable_facts)
  with A have "py_strip (A @ rest) = A @ py_rstrip_chars py_isspace rest"
    by (intro py_strip_prefix)
  then have s: "py_strip (sch @ ''://'' @ host @ rest) =
      sch @ ''://'' @ host @ py_rstrip_chars py_isspace rest"
    by (simp add: A_def)
  from urlparse_well_formed [OF sch host rstrip_keeps_delim [OF rest], of chk]
  show ?thesis
    using sch host(1) unfolding validate_url_main_iff s by auto
qed

text \<open>
  Claim C5.  \<open>validate_url\<close>, in both files, is a total function from strings to booleans.  It
  returns true exactly when the stripped string parses, the parsed scheme is \<open>http\<close> or
  \<open>https\<close> and the parsed authority is not empty.  On an empty string and on a string of white
  space alone it returns false, and when the parser raises it returns false: the exception does
  not leave the function.  It returns true on every string made of \<open>http://\<close> or \<open>https://\<close>, an
  authority of printable ASCII characters without \<open>/\<close>, \<open>?\<close>, \<open>#\<close> and brackets, and a rest that
  is empty or starts with \<open>/\<close>, \<open>?\<close> or \<open>#\<close>.
\<close>

theorem validate_url_characterised:
  "(validate_url_app chk url =
      (\<exists>p. urlparse chk (py_strip url) [] = Inr p
           \<and> (scheme p = ''http'' \<or> scheme p = ''https'') \<and> netloc p \<noteq> []))
   \<and> (validate_url_main chk url =
      (\<exists>p. urlparse chk (py_strip url) [] = Inr p
           \<and> (scheme p = ''http'' \<or> scheme p = ''https'') \<and> netloc p \<noteq> []))
   \<and> (list_all py_isspace url \<longrightarrow>
        \<not> validate_url_app chk url \<and> \<not> validate_url_main chk url)
   \<and> (\<forall>e. urlparse chk (py_strip url) [] = Inl e \<longrightarrow>
        \<not> validate_url_app chk url \<and> \<not> validate_url_main chk url)
   \<and> ((sch = ''http'' \<or> sch = ''https'') \<and> host \<noteq> []
       \<and> (\<forall>x\<in>set host. 33 \<le> (of_char x :: nat) \<and> (of_char x :: nat) \<le> 126
             \<and> \<not> netloc_delim x \<and> x \<noteq> CHR ''['' \<and> x \<noteq> CHR '']'')
       \<and> (rest = [] \<or> netloc_delim (hd rest)) \<longrightarrow>
        validate_url_app chk (sch @ ''://'' @ host @ rest)
        \<and> validate_url_main chk (sch @ ''://'' @ host @ rest))"
proof -
  have blank: "list_all py_isspace url \<Longrightarrow> urlparse chk (py_strip url) [] =
      Inr \<lparr>scheme = [], netloc = [], path = [], query = [], fragment = [], params = []\<rparr>"
    by (simp add: py_strip_spaces urlparse_empty)
  have iffs: "(validate_url_app chk url =
      (\<exists>p. urlparse chk (py_strip url) [] = Inr p
           \<and> (scheme p = ''http'' \<or> scheme p = ''https'') \<and> netloc p \<noteq> []))
   \<and> (validate_url_main chk url =
      (\<exists>p. urlparse chk (py_strip url) [] = Inr p
           \<and> (scheme p = ''http'' \<or> scheme p = ''https'') \<and> netloc p \<noteq> []))
   \<and> (list_all py_isspace url \<longrightarrow>
        \<not> validate_url_app chk url \<and> \<not> validate_url_main chk url)
   \<and> (\<forall>e. urlparse chk (py_strip url) [] = Inl e \<longrightarrow>
        \<not> validate_url_app chk url \<and> \<not> validate_url_main chk url)"
    using blank by (auto simp: validate_url_app_iff validate_url_main_iff)
  have "validate_url_app chk u = validate_url_main chk u" for u
    by (simp only: validate_url_app_iff validate_url_main_iff)
  then have wf: "(sch = ''http'' \<or> sch = ''https'') \<and> host \<noteq> []
       \<and> (\<forall>x\<in>set host. 33 \<le> (of_char x :: nat) \<and> (of_char x :: nat) \<le> 126
             \<and> \<not> netloc_delim x \<and> x \<noteq> CHR ''['' \<and> x \<noteq> CHR '']'')
       \<and> (rest = [] \<or> netloc_delim (hd rest)) \<longrightarrow>
        validate_url_app chk (sch @ ''://'' @ host @ rest)
        \<and> validate_url_main chk (sch @ ''://'' @ host @ rest)"
    using validate_url_well_formed [of sch host rest chk] by blast
  from iffs wf show ?thesis
    by blast
qed

theorem validate_url_characterised_witness:
  "validate_url_app (\<lambda>h. True) ''  http://host  ''
   \<and> validate_url_main (\<lambda>h. True) ''  http://host  ''
   \<and> \<not> validate_url_app (\<lambda>h. True) ''   ''
   \<and> \<not> validate_url_main (\<lambda>h. True) ''   ''
   \<and> \<not> validate_url_app (\<lambda>h. True) ''http://[::1''
   \<and> \<not> validate_url_main (\<lambda>h. True) ''http://[::1''
   \<and> validate_url_app (\<lambda>h. True) ''https://host:8443/path''
   \<and> validate_url_main (\<lambda>h. True) ''https://host:8443/path''"
proof -
  have strip3: "py_strip ''http://[::1'' = ''http://[::1''"
    by code_simp
  have a: "validate_url_app (\<lambda>h. True) ''  http://host  ''
      \<and> validate_url_main (\<lambda>h. True) ''  http://host  ''"
    using validate_url_characterised [where chk = "\<lambda>h. True" and url = "''  http://host  ''"
        and sch = "[]" and host = "[]" and rest = "[]"]
    by (simp add: strip_example urlparse_example)
  have b: "\<not> validate_url_app (\<lambda>h. True) ''   '' \<and> \<not> validate_url_main (\<lambda>h. True) ''   ''"
    using validate_url_characterised [where chk = "\<lambda>h. True" and url = "''   ''"
        and sch = "[]" and host = "[]" and rest = "[]"] blanks_example
    by blast
  have "urlparse (\<lambda>h. True) (py_strip ''http://[::1'') [] = Inl (value_error ''Invalid IPv6 URL'')"
    by (simp only: strip3 urlparse_raises_example)
  then have c: "\<not> validate_url_app (\<lambda>h. True) ''http://[::1''
      \<and> \<not> validate_url_main (\<lambda>h. True) ''http://[::1''"
    using validate_url_characterised [where chk = "\<lambda>h. True" and url = "''http://[::1''"
        and sch = "[]" and host = "[]" and rest = "[]"]
    by blast
  have h: "\<forall>x\<in>set ''host:8443''. 33 \<le> (of_char x :: nat) \<and> (of_char x :: nat) \<le> 126
             \<and> \<not> netloc_delim x \<and> x \<noteq> CHR ''['' \<and> x \<noteq> CHR '']''"
    by (simp add: netloc_delim_def)
  have r: "''/path'' = [] \<or> netloc_delim (hd ''/path'')"
    by (simp add: netloc_delim_def)
  have "validate_url_app (\<lambda>h. True) (''https'' @ ''://'' @ ''host:8443'' @ ''/path'')
      \<and> validate_url_main (\<lambda>h. True) (''https'' @ ''://'' @ ''host:8443'' @ ''/path'')"
    using validate_url_characterised [where chk = "\<lambda>h. True" and url = "[]"
        and sch = "''https''" and host = "''host:8443''" and rest = "''/path''"] h r
    by blast
  then have d: "validate_url_app (\<lambda>h. True) ''https://host:8443/path''
      \<and> validate_url_main (\<lambda>h. True) ''https://host:8443/path''"
    by simp
  from a b c d show ?thesis
    by blast
qed

text \<open>
  Claim C10.  The validator of \<open>app.py\<close> and the validator of \<open>main.py\<close> return the same
  boolean for every string (and every behaviour of the library's check of bracketed hosts).
\<close>

theorem validate_url_app_eq_main: "validate_url_app chk url = validate_url_main chk url"
  by (simp only: validate_url_app_iff validate_url_main_iff)

theorem validate_url_app_eq_main_witness:
  "validate_url_app (\<lambda>h. True) ''  http://host  '' = validate_url_main (\<lambda>h. True) ''  http://host  ''
   \<and> validate_url_app (\<lambda>h. True) [] = validate_url_main (\<lambda>h. True) []"
  using validate_url_app_eq_main [of "\<lambda>h. True" "''  http://host  ''"]
    validate_url_app_eq_main [of "\<lambda>h. True" "[]"]
  by simp

section \<open>Properties of the endpoint\<close>

lemma py_split_no_sep: "c \<notin> set s \<Longrightarrow> py_split c s = [s]"
  by (induction s) auto

lemma py_split_at_sep: "c \<notin> set s \<Longrightarrow> py_split c (s @ c # r) = s # py_split c r"
  by (induction s) auto

lemma py_split_segments:
  "\<forall>s\<in>set segs. c \<notin> set s \<Longrightarrow>
     py_split c (concat (map (\<lambda>s. c # s) segs) @ [c]) = [] # segs @ [[]]"
proof (induction segs)
  case Nil
  show ?case by simp
next
  case (Cons s segs)
  then have ih: "py_split c (concat (map (\<lambda>s. c # s) segs) @ [c]) = [] # segs @ [[]]"
    and s: "c \<notin> set s"
    by simp_all
  obtain r where r: "concat (map (\<lambda>s. c # s) segs) @ [c] = c # r"
    by (cases segs) auto
  with ih have "py_split c r = segs @ [[]]"
    by simp
  with s r show ?case
    by (simp add: py_split_at_sep)
qed

lemma py_join_segments:
  "py_join c (x # segs @ [m]) = x @ concat (map (\<lambda>s. c # s) segs) @ c # m"
  by (induction segs arbitrary: x) auto

lemma resolve_segments_plain:
  "\<forall>s\<in>set segs. s \<noteq> ''.'' \<and> s \<noteq> ''..'' \<Longrightarrow> resolve_segments segs acc = acc @ segs"
  by (induction segs arbitrary: acc) auto

lemma filter_middle_segments:
  "\<forall>s\<in>set segs. s \<noteq> [] \<Longrightarrow> filter_middle (([] # segs @ [[]]) @ [m]) = [] # segs @ [m]"
proof -
  assume a: "\<forall>s\<in>set segs. s \<noteq> []"
  then have f: "filter (\<lambda>x. x \<noteq> []) segs = segs"
    by (simp add: filter_id_conv)
  have "filter_middle ([] # (segs @ [[]] @ [m])) =
      [] # filter (\<lambda>x. x \<noteq> []) (butlast (segs @ [[]] @ [m])) @ [last (segs @ [[]] @ [m])]"
    by (cases "segs @ [[]] @ [m]") (auto simp: filter_middle_def)
  also have "butlast (segs @ [[]] @ [m]) = segs @ [[]]"
    by (simp add: butlast_append)
  finally show ?thesis
    using f by simp
qed

lemma py_rstrip_replicate:
  "xs \<noteq> [] \<Longrightarrow> \<not> P (last xs) \<Longrightarrow> P c \<Longrightarrow> py_rstrip_chars P (xs @ replicate k c) = xs"
proof -
  assume a: "xs \<noteq> []" "\<not> P (last xs)" "P c"
  then have "dropWhile P (rev xs) = rev xs"
    by (cases "rev xs") (auto simp: last_rev hd_rev)
  moreover have "dropWhile P (replicate k c @ rev xs) = dropWhile P (rev xs)"
    using a(3) by (induction k) auto
  ultimately show ?thesis
    by (simp add: py_rstrip_chars_def)
qed

lemma py_strip_id:
  "s \<noteq> [] \<Longrightarrow> \<not> py_isspace (hd s) \<Longrightarrow> \<not> py_isspace (last s) \<Longrightarrow> py_strip s = s"
proof -
  assume a: "s \<noteq> []" "\<not> py_isspace (hd s)" "\<not> py_isspace (last s)"
  then have "dropWhile py_isspace s = s"
    by (cases s) auto
  moreover from a have "dropWhile py_isspace (rev s) = rev s"
    by (cases "rev s") (auto simp: hd_rev)
  ultimately show ?thesis
    by (simp add: py_strip_def py_strip_chars_def py_rstrip_chars_def py_lstrip_chars_def)
qed

lemma splitparams_dir: "splitparams (xs @ ''/'') = (xs @ ''/'', [])"
  by (simp add: splitparams_def)

lemma slash_facts:
  "\<not> is_unsafe_byte (CHR ''/'')" "\<not> is_c0_or_space (CHR ''/'')" "\<not> py_isspace (CHR ''/'')"
  "netloc_delim (CHR ''/'')"
  by (simp_all add: is_unsafe_byte_def is_c0_or_space_def py_isspace_def netloc_delim_def)

lemma urlparse_models:
  "sch = ''http'' \<or> sch = ''https'' \<Longrightarrow>
   urlparse chk ''models'' sch =
     Inr \<lparr>scheme = sch, netloc = [], path = ''models'', query = [], fragment = [], params = []\<rparr>"
  by (elim disjE; simp; code_simp)

lemma urlparse_base:
  assumes sch: "sch = ''http'' \<or> sch = ''https''"
    and host: "host \<noteq> []"
      "\<forall>c\<in>set host. 33 \<le> (of_char c :: nat) \<and> (of_char c :: nat) \<le> 126 \<and> \<not> netloc_delim c
          \<and> c \<noteq> CHR ''['' \<and> c \<noteq> CHR '']''"
    and segs: "\<forall>s\<in>set segs. \<forall>c\<in>set s. 33 \<le> (of_char c :: nat) \<and> (of_char c :: nat) \<le> 126
          \<and> \<not> netloc_delim c"
  shows "urlparse chk (sch @ ''://'' @ host @ concat (map (\<lambda>s. CHR ''/'' # s) segs) @ ''/'') [] =
     Inr \<lparr>scheme = sch, netloc = host, path = concat (map (\<lambda>s. CHR ''/'' # s) segs) @ ''/'',
          query = [], fragment = [], params = []\<rparr>"
proof -
  define P where "P = concat (map (\<lambda>s. CHR ''/'' # s) segs) @ ''/''"
  have Pset: "\<forall>c\<in>set P. \<not> is_unsafe_byte c \<and> c \<noteq> CHR ''#'' \<and> c \<noteq> CHR ''?''"
    using segs by (auto simp: P_def netloc_delim_def slash_facts printable_facts)
  have Hset: "\<forall>c\<in>set host. \<not> is_unsafe_byte c"
    using host by (auto simp: printable_facts)
  have filt: "filter (\<lambda>c. \<not> is_unsafe_byte c) (host @ P) = host @ P"
    using Pset Hset by (auto simp: filter_id_conv)
  obtain r where Pr: "P = CHR ''/'' # r"
    by (cases segs) (auto simp: P_def)
  have tw: "takeWhile (\<lambda>c. \<not> netloc_delim c) (host @ P) = host"
    using host by (simp add: takeWhile_append2 Pr slash_facts)
  have dw: "dropWhile (\<lambda>c. \<not> netloc_delim c) (host @ P) = P"
    using host by (simp add: dropWhile_append2 Pr slash_facts)
  have br: "CHR ''['' \<notin> set host" "CHR '']'' \<notin> set host"
    using host by auto
  have tail: "split_tail sch host P =
      \<lparr>scheme = sch, netloc = host, path = P, query = [], fragment = []\<rparr>"
    using Pset by (auto simp: split_tail_def)
  have split: "urlsplit chk (sch @ ''://'' @ host @ P) [] =
      Inr \<lparr>scheme = sch, netloc = host, path = P, query = [], fragment = []\<rparr>"
    using sch
  proof
    assume "sch = ''http''"
    then show ?thesis
      using filt tw dw br tail
      by (simp add: urlsplit_def py_lstrip_chars_def is_c0_or_space_def is_unsafe_byte_def
          split_scheme_def splitnetloc_def ascii_alpha_def ascii_upper_alpha_def
          ascii_lower_alpha_def scheme_char_def ascii_lower_def ascii_digit_def)
  next
    assume "sch = ''https''"
    then show ?thesis
      using filt tw dw br tail
      by (simp add: urlsplit_def py_lstrip_chars_def is_c0_or_space_def is_unsafe_byte_def
          split_scheme_def splitnetloc_def ascii_alpha_def ascii_upper_alpha_def
          ascii_lower_alpha_def scheme_char_def ascii_lower_def ascii_digit_def)
  qed
  have sp: "splitparams P = (P, [])"
    unfolding P_def by (simp only: append_assoc[symmetric] splitparams_dir)
  show ?thesis
    using split sp unfolding P_def[symmetric]
    by (simp add: urlparse_def)
qed

lemma urljoin_models:
  assumes sch: "sch = ''http'' \<or> sch = ''https''"
    and host: "host \<noteq> []"
      "\<forall>c\<in>set host. 33 \<le> (of_char c :: nat) \<and> (of_char c :: nat) \<le> 126 \<and> \<not> netloc_delim c
          \<and> c \<noteq> CHR ''['' \<and> c \<noteq> CHR '']''"
    and segs: "\<forall>s\<in>set segs. s \<noteq> [] \<and> s \<noteq> ''.'' \<and> s \<noteq> ''..'' \<and>
          (\<forall>c\<in>set s. 33 \<le> (of_char c :: nat) \<and> (of_char c :: nat) \<le> 126 \<and> \<not> netloc_delim c)"
  shows "urljoin chk (sch @ ''://'' @ host @ concat (map (\<lambda>s. CHR ''/'' # s) segs) @ ''/'')
           ''models'' =
     Inr (sch @ ''://'' @ host @ concat (map (\<lambda>s. CHR ''/'' # s) segs) @ ''/models'')"
proof -
  define P where "P = concat (map (\<lambda>s. CHR ''/'' # s) segs)"
  have noslash: "\<forall>s\<in>set segs. CHR ''/'' \<notin> set s"
    using segs by (auto simp: netloc_delim_def)
  have base: "urlparse chk (sch @ ''://'' @ host @ P @ ''/'') [] =
      Inr \<lparr>scheme = sch, netloc = host, path = P @ ''/'', query = [], fragment = [], params = []\<rparr>"
    unfolding P_def using sch host segs by (intro urlparse_base) auto
  have rel: "urlparse chk ''models'' sch =
      Inr \<lparr>scheme = sch, netloc = [], path = ''models'', query = [], fragment = [], params = []\<rparr>"
    using sch by (rule urlparse_models)
  have parts: "py_split (CHR ''/'') (P @ ''/'') = [] # segs @ [[]]"
    unfolding P_def using noslash by (rule py_split_segments)
  have m: "py_split (CHR ''/'') ''models'' = [''models'']"
    by (simp add: py_split_no_sep)
  have fm: "filter_middle (([] # segs @ [[]]) @ [''models'']) = [] # segs @ [''models'']"
    using segs by (intro filter_middle_segments) auto
  have rs: "resolve_segments ([] # segs @ [''models'']) [] = [] # segs @ [''models'']"
    using segs by (subst resolve_segments_plain) auto
  have jn: "py_join (CHR ''/'') ([] # segs @ [''models'']) = P @ ''/models''"
    unfolding P_def by (simp add: py_join_segments)
  obtain r where Pr: "P @ ''/models'' = CHR ''/'' # r"
    by (cases segs) (auto simp: P_def)
  have un: "urlunparse sch host (P @ ''/models'') [] [] [] = sch @ ''://'' @ host @ P @ ''/models''"
    using sch host(1) by (auto simp: urlunparse_def urlunsplit_def Pr)
  have tables: "sch \<in> set uses_relative" "sch \<in> set uses_netloc"
    using sch by (auto simp: uses_relative_def uses_netloc_def)
  have nonempty: "sch @ ''://'' @ host @ P @ ''/'' \<noteq> []"
    using sch by auto
  show ?thesis
    unfolding P_def[symmetric]
    using base rel parts m fm rs jn un tables nonempty
    by (simp add: urljoin_def Let_def)
qed

lemma endpoint_well_formed:
  assumes sch: "sch = ''http'' \<or> sch = ''https''"
    and host: "host \<noteq> []"
      "\<forall>c\<in>set host. 33 \<le> (of_char c :: nat) \<and> (of_char c :: nat) \<le> 126 \<and> \<not> netloc_delim c
          \<and> c \<noteq> CHR ''['' \<and> c \<noteq> CHR '']''"
    and segs: "\<forall>s\<in>set segs. s \<noteq> [] \<and> s \<noteq> ''.'' \<and> s \<noteq> ''..'' \<and>
          (\<forall>c\<in>set s. 33 \<le> (of_char c :: nat) \<and> (of_char c :: nat) \<le> 126 \<and> \<not> netloc_delim c)"
  shows "endpoint_of chk (new_client (sch @ ''://'' @ host @ concat (map (\<lambda>s. CHR ''/'' # s) segs)
            @ replicate k (CHR ''/'')) key) =
     Inr (sch @ ''://'' @ host @ concat (map (\<lambda>s. CHR ''/'' # s) segs) @ ''/models'')"
proof -
  define B where "B = sch @ ''://'' @ host @ concat (map (\<lambda>s. CHR ''/'' # s) segs)"
  have Bne: "B \<noteq> []"
    using sch by (auto simp: B_def)
  have hdB: "hd (B @ replicate k (CHR ''/'')) = CHR ''h''"
    using sch by (auto simp: B_def)
  have lastB: "last B \<noteq> CHR ''/'' \<and> \<not> py_isspace (last B)"
  proof (cases "segs = []")
    case True
    then have "last B = last host"
      using host(1) by (simp add: B_def)
    moreover have "last host \<in> set host"
      using host(1) by simp
    ultimately show ?thesis
      using host(2) by (auto simp: netloc_delim_def printable_facts)
  next
    case False
    then obtain ss s where ss: "segs = ss @ [s]"
      by (cases segs rule: rev_cases) auto
    with segs have s: "s \<noteq> []"
      "\<forall>c\<in>set s. 33 \<le> (of_char c :: nat) \<and> (of_char c :: nat) \<le> 126 \<and> \<not> netloc_delim c"
      by auto
    from ss s(1) have "last B = last s"
      by (simp add: B_def)
    moreover have "last s \<in> set s"
      using s(1) by simp
    ultimately show ?thesis
      using s(2) by (auto simp: netloc_delim_def printable_facts)
  qed
  have lastBk: "\<not> py_isspace (last (B @ replicate k (CHR ''/'')))"
    using lastB by (cases k) (auto simp: slash_facts)
  have strip: "py_strip (B @ replicate k (CHR ''/'')) = B @ replicate k (CHR ''/'')"
    using Bne hdB lastBk by (intro py_strip_id) (auto simp: py_isspace_def)
  have rstrip: "py_rstrip_chars (\<lambda>x. x = CHR ''/'') (B @ replicate k (CHR ''/'')) = B"
    using Bne lastB by (intro py_rstrip_replicate) auto
  have "endpoint_of chk (new_client (B @ replicate k (CHR ''/'')) key) =
      urljoin chk (B @ ''/'') ''models''"
    by (simp add: endpoint_of_def new_client_def strip rstrip)
  also have "\<dots> = Inr (B @ ''/models'')"
    unfolding B_def using urljoin_models[OF sch host segs, of chk] by simp
  finally show ?thesis
    by (simp add: B_def)
qed

lemma endpoint_trailing_slash:
  "endpoint_of chk (c\<lparr>base_url := base_url c @ ''/''\<rparr>) = endpoint_of chk c"
  by (simp add: endpoint_of_def py_rstrip_chars_def)

lemma sample_endpoint:
  "endpoint_of chk (new_client ''https://api.example.com/v1'' key) =
     Inr ''https://api.example.com/v1/models''"
  by (simp add: endpoint_of_def new_client_def; code_simp)

lemma sample_endpoint_slash:
  "endpoint_of chk (new_client ''https://api.example.com/v1/'' key) =
     Inr ''https://api.example.com/v1/models''"
  by (simp add: endpoint_of_def new_client_def; code_simp)


text \<open>
  What holds of the target.  For the base URLs \<open>https://api.example.com/v1\<close> and
  \<open>https://api.example.com/v1/\<close> it is \<open>https://api.example.com/v1/models\<close>.  One more slash
  at the end of the base URL of a client never changes the target.  For every base URL made
  of the scheme \<open>http\<close> or \<open>https\<close>, an authority of printable ASCII characters without \<open>/\<close>,
  \<open>?\<close>, \<open>#\<close> and brackets, any number of path segments of printable ASCII characters without
  \<open>/\<close>, \<open>?\<close> and \<open>#\<close> (none of them empty, \<open>.\<close> or \<open>..\<close>) and any number of trailing slashes,
  the target is that base URL without its trailing slashes, followed by \<open>/models\<close>: every
  segment of the path is kept, once.
\<close>

lemma endpoint_of_plain_base:
  "endpoint_of chk (new_client ''https://api.example.com/v1'' key) =
      Inr ''https://api.example.com/v1/models''
   \<and> endpoint_of chk (new_client ''https://api.example.com/v1/'' key) =
      Inr ''https://api.example.com/v1/models''
   \<and> endpoint_of chk (c\<lparr>base_url := base_url c @ ''/''\<rparr>) = endpoint_of chk c
   \<and> ((sch = ''http'' \<or> sch = ''https'') \<and> host \<noteq> []
       \<and> (\<forall>x\<in>set host. 33 \<le> (of_char x :: nat) \<and> (of_char x :: nat) \<le> 126
             \<and> \<not> netloc_delim x \<and> x \<noteq> CHR ''['' \<and> x \<noteq> CHR '']'')
       \<and> (\<forall>s\<in>set segs. s \<noteq> [] \<and> s \<noteq> ''.'' \<and> s \<noteq> ''..''
             \<and> (\<forall>x\<in>set s. 33 \<le> (of_char x :: nat) \<and> (of_char x :: nat) \<le> 126
                   \<and> \<not> netloc_delim x)) \<longrightarrow>
       endpoint_of chk
         (new_client (sch @ ''://'' @ host @ concat (map (\<lambda>s. CHR ''/'' # s) segs)
            @ replicate k (CHR ''/'')) key) =
       Inr (sch @ ''://'' @ host @ concat (map (\<lambda>s. CHR ''/'' # s) segs) @ ''/models''))"
  using sample_endpoint [of chk key] sample_endpoint_slash [of chk key]
    endpoint_trailing_slash [of chk c] endpoint_well_formed [of sch host segs chk k key]
  by blast

text \<open>
  Claim C4 says that the target is the base URL, with exactly one trailing slash, joined
  with \<open>models\<close>, and that the version segment of the base URL is neither lost nor
  duplicated.  \<open>fetch_models\<close>, in both files, appends the slash to the whole text of the base
  URL and lets \<open>urljoin\<close> resolve \<open>models\<close> against it.  For the base URL
  \<open>https://api.example.com/v1?api-version=2024\<close>, which \<open>validate_url\<close> of both files
  accepts, the slash lands in the query, \<open>urljoin\<close> replaces the last segment of the path,
  and the target is \<open>https://api.example.com/models\<close>: the segment \<open>v1\<close> is lost, and the
  query with it.  The same target results from the base URLs \<open>https://api.example.com/v1#x\<close>
  and \<open>https://api.example.com/v1/..\<close>, which are accepted as well.
\<close>

theorem endpoint_loses_segment:
  "validate_url_main chk ''https://api.example.com/v1?api-version=2024''
   \<and> validate_url_app chk ''https://api.example.com/v1?api-version=2024''
   \<and> endpoint_of chk (new_client ''https://api.example.com/v1?api-version=2024'' key) =
      Inr ''https://api.example.com/models''
   \<and> validate_url_main chk ''https://api.example.com/v1#x''
   \<and> endpoint_of chk (new_client ''https://api.example.com/v1#x'' key) =
      Inr ''https://api.example.com/models''
   \<and> validate_url_main chk ''https://api.example.com/v1/..''
   \<and> endpoint_of chk (new_client ''https://api.example.com/v1/..'' key) =
      Inr ''https://api.example.com/models''"
proof -
  have v: "validate_url_main chk ''https://api.example.com/v1?api-version=2024''"
    "validate_url_app chk ''https://api.example.com/v1?api-version=2024''"
    "validate_url_main chk ''https://api.example.com/v1#x''"
    "validate_url_main chk ''https://api.example.com/v1/..''"
    by code_simp+
  have q: "endpoint_of chk (new_client ''https://api.example.com/v1?api-version=2024'' key) =
      Inr ''https://api.example.com/models''"
    by (simp add: endpoint_of_def new_client_def; code_simp)
  have f: "endpoint_of chk (new_client ''https://api.example.com/v1#x'' key) =
      Inr ''https://api.example.com/models''"
    by (simp add: endpoint_of_def new_client_def; code_simp)
  have d: "endpoint_of chk (new_client ''https://api.example.com/v1/..'' key) =
      Inr ''https://api.example.com/models''"
    by (simp add: endpoint_of_def new_client_def; code_simp)
  from v q f d show ?thesis
    by blast
qed

theorem endpoint_loses_segment_witness:
  "validate_url_main accept_hosts ''https://api.example.com/v1?api-version=2024''
   \<and> validate_url_app accept_hosts ''https://api.example.com/v1?api-version=2024''
   \<and> endpoint_of accept_hosts (new_client ''https://api.example.com/v1?api-version=2024'' None) =
      Inr ''https://api.example.com/models''
   \<and> validate_url_main accept_hosts ''https://api.example.com/v1#x''
   \<and> endpoint_of accept_hosts (new_client ''https://api.example.com/v1#x'' None) =
      Inr ''https://api.example.com/models''
   \<and> validate_url_main accept_hosts ''https://api.example.com/v1/..''
   \<and> endpoint_of accept_hosts (new_client ''https://api.example.com/v1/..'' None) =
      Inr ''https://api.example.com/models''"
  using endpoint_loses_segment [of accept_hosts None] .

section \<open>Properties of the API client\<close>

text \<open>
  Claim C1.  Whenever the endpoint is resolved, \<open>fetch_models\<close> of both files classifies what
  \<open>requests.get\<close> does in this order: an exception that is a \<open>Timeout\<close> gives \<open>Timeout\<close>;
  otherwise an exception that is a \<open>ConnectionError\<close> gives \<open>ConnectionFailed\<close> with the text of
  the exception; otherwise any other \<open>RequestException\<close> gives \<open>NetworkError\<close>; a response with
  status 401 gives \<open>Unauthorized\<close>, with status 404 \<open>NotFound\<close> with the resolved endpoint, with
  status 500 \<open>ServerError\<close>, and with any other status but 200 \<open>UnexpectedStatus\<close> with that
  status.
\<close>

theorem fetch_models_classification:
  assumes "endpoint_of chk c = Inr ep"
  shows
   "(\<forall>e. net ep 30 (headers_of c) = Raises e \<and> is_timeout e \<longrightarrow>
        fetch_models_app chk net c = Inl Timeout \<and> fetch_models_main chk net c = Inl Timeout)
    \<and> (\<forall>e. net ep 30 (headers_of c) = Raises e \<and> \<not> is_timeout e \<and> is_connection_error e \<longrightarrow>
        fetch_models_app chk net c = Inl (ConnectionFailed (text_of e))
        \<and> fetch_models_main chk net c = Inl (ConnectionFailed (text_of e)))
    \<and> (\<forall>e. net ep 30 (headers_of c) = Raises e \<and> \<not> is_timeout e \<and> \<not> is_connection_error e
            \<and> is_request_exception e \<longrightarrow>
        fetch_models_app chk net c = Inl (NetworkError (text_of e))
        \<and> fetch_models_main chk net c = Inl (NetworkError (text_of e)))
    \<and> (\<forall>r. net ep 30 (headers_of c) = Responds r \<and> status_code r = 401 \<longrightarrow>
        fetch_models_app chk net c = Inl Unauthorized
        \<and> fetch_models_main chk net c = Inl Unauthorized)
    \<and> (\<forall>r. net ep 30 (headers_of c) = Responds r \<and> status_code r = 404 \<longrightarrow>
        fetch_models_app chk net c = Inl (NotFound ep)
        \<and> fetch_models_main chk net c = Inl (NotFound ep))
    \<and> (\<forall>r. net ep 30 (headers_of c) = Responds r \<and> status_code r = 500 \<longrightarrow>
        fetch_models_app chk net c = Inl ServerError
        \<and> fetch_models_main chk net c = Inl ServerError)
    \<and> (\<forall>r. net ep 30 (headers_of c) = Responds r \<and> status_code r \<noteq> 200
            \<and> status_code r \<noteq> 401 \<and> status_code r \<noteq> 404 \<and> status_code r \<noteq> 500 \<longrightarrow>
        fetch_models_app chk net c = Inl (UnexpectedStatus (status_code r))
        \<and> fetch_models_main chk net c = Inl (UnexpectedStatus (status_code r)))"
  using assms
  by (simp add: fetch_models_app_def fetch_body_app_def fetch_models_main_def fetch_body_main_def)

text \<open>The classification of C1 for a connect time-out (which is a \<open>Timeout\<close> and a
  \<open>ConnectionError\<close>), a refused connection, another request exception, and the status codes
  401, 404, 500 and 503.\<close>

theorem fetch_models_classification_witness:
  "fetch_models_app accept_hosts (answering (Raises (request_error True True ''timed out'')))
      (new_client ''https://api.example.com/v1'' None) = Inl Timeout
   \<and> fetch_models_main accept_hosts (answering (Raises (request_error True True ''timed out'')))
      (new_client ''https://api.example.com/v1'' None) = Inl Timeout
   \<and> fetch_models_app accept_hosts (answering (Raises (request_error False True ''refused'')))
      (new_client ''https://api.example.com/v1'' None) = Inl (ConnectionFailed ''refused'')
   \<and> fetch_models_main accept_hosts (answering (Raises (request_error False True ''refused'')))
      (new_client ''https://api.example.com/v1'' None) = Inl (ConnectionFailed ''refused'')
   \<and> fetch_models_app accept_hosts (answering (Raises (request_error False False ''redirects'')))
      (new_client ''https://api.example.com/v1'' None) = Inl (NetworkError ''redirects'')
   \<and> fetch_models_main accept_hosts (answering (Raises (request_error False False ''redirects'')))
      (new_client ''https://api.example.com/v1'' None) = Inl (NetworkError ''redirects'')
   \<and> fetch_models_app accept_hosts (answering (reply 401 JNull))
      (new_client ''https://api.example.com/v1'' None) = Inl Unauthorized
   \<and> fetch_models_main accept_hosts (answering (reply 401 JNull))
      (new_client ''https://api.example.com/v1'' None) = Inl Unauthorized
   \<and> fetch_models_app accept_hosts (answering (reply 404 JNull))
      (new_client ''https://api.example.com/v1'' None)
        = Inl (NotFound ''https://api.example.com/v1/models'')
   \<and> fetch_models_main accept_hosts (answering (reply 404 JNull))
      (new_client ''https://api.example.com/v1'' None)
        = Inl (NotFound ''https://api.example.com/v1/models'')
   \<and> fetch_models_app accept_hosts (answering (reply 500 JNull))
      (new_client ''https://api.example.com/v1'' None) = Inl ServerError
   \<and> fetch_models_main accept_hosts (answering (reply 500 JNull))
      (new_client ''https://api.example.com/v1'' None) = Inl ServerError
   \<and> fetch_models_app accept_hosts (answering (reply 503 JNull))
      (new_client ''https://api.example.com/v1'' None) = Inl (UnexpectedStatus 503)
   \<and> fetch_models_main accept_hosts (answering (reply 503 JNull))
      (new_client ''https://api.example.com/v1'' None) = Inl (UnexpectedStatus 503)"
proof -
  note ep = sample_endpoint [of accept_hosts None]
  show ?thesis
    using fetch_models_classification [OF ep,
        of "answering (Raises (request_error True True ''timed out''))"]
      fetch_models_classification [OF ep,
        of "answering (Raises (request_error False True ''refused''))"]
      fetch_models_classification [OF ep,
        of "answering (Raises (request_error False False ''redirects''))"]
      fetch_models_classification [OF ep, of "answering (reply 401 JNull)"]
      fetch_models_classification [OF ep, of "answering (reply 404 JNull)"]
      fetch_models_classification [OF ep, of "answering (reply 500 JNull)"]
      fetch_models_classification [OF ep, of "answering (reply 503 JNull)"]
    by (simp add: answering_def reply_def request_error_def)
qed

text \<open>
  What \<open>app.py\<close> does with a response of status 200: a body that \<open>json()\<close> rejects with a
  \<open>ValueError\<close> gives \<open>MalformedResponse\<close>; a parsed body that is not an object, has no field
  \<open>data\<close>, or whose \<open>data\<close> is not a list gives \<open>InvalidSchema\<close>.
\<close>

lemma fetch_models_app_body_faults:
  assumes "endpoint_of chk c = Inr ep"
    and "net ep 30 (headers_of c) = Responds r"
    and "status_code r = 200"
  shows "(\<forall>e. json_body r = Inl e \<and> is_value_error e \<longrightarrow>
            fetch_models_app chk net c = Inl (MalformedResponse (text_of e)))
      \<and> (\<forall>body. json_body r = Inr body \<and> (\<forall>items. body \<noteq> JObj items) \<longrightarrow>
            fetch_models_app chk net c = Inl (InvalidSchema NotAnObject))
      \<and> (\<forall>items. json_body r = Inr (JObj items) \<and> map_of items ''data'' = None \<longrightarrow>
            fetch_models_app chk net c = Inl (InvalidSchema MissingData))
      \<and> (\<forall>items v. json_body r = Inr (JObj items) \<and> map_of items ''data'' = Some v
              \<and> (\<forall>xs. v \<noteq> JArr xs) \<longrightarrow>
            fetch_models_app chk net c = Inl (InvalidSchema DataNotArray))"
  using assms
  by (auto simp: fetch_models_app_def fetch_body_app_def split: json.splits)

text \<open>
  What \<open>main.py\<close> does with a response of status 200 whose body is an object or does not
  parse.  An object without a list under \<open>data\<close> gives \<open>InvalidSchema\<close>.  The exception of a
  body that does not parse reaches the handlers in their order: when it is a \<open>ValueError\<close> and
  no \<open>RequestException\<close> the result is \<open>MalformedResponse\<close>, and when it is a \<open>RequestException\<close>
  (as the \<open>JSONDecodeError\<close> of \<open>requests\<close> itself is) the earlier handler gives \<open>NetworkError\<close>.
\<close>

lemma fetch_models_main_body_faults:
  assumes "endpoint_of chk c = Inr ep"
    and "net ep 30 (headers_of c) = Responds r"
    and "status_code r = 200"
  shows "(\<forall>e. json_body r = Inl e \<and> \<not> is_request_exception e \<and> \<not> is_timeout e
              \<and> \<not> is_connection_error e \<and> is_value_error e \<longrightarrow>
            fetch_models_main chk net c = Inl (MalformedResponse (text_of e)))
      \<and> (\<forall>e. json_body r = Inl e \<and> is_request_exception e \<and> \<not> is_timeout e
              \<and> \<not> is_connection_error e \<longrightarrow>
            fetch_models_main chk net c = Inl (NetworkError (text_of e)))
      \<and> (\<forall>items. json_body r = Inr (JObj items) \<and> map_of items ''data'' = None \<longrightarrow>
            fetch_models_main chk net c = Inl (InvalidSchema NoValidData))
      \<and> (\<forall>items v. json_body r = Inr (JObj items) \<and> map_of items ''data'' = Some v
              \<and> (\<forall>xs. v \<noteq> JArr xs) \<longrightarrow>
            fetch_models_main chk net c = Inl (InvalidSchema NoValidData))"
  using assms
  by (auto simp: fetch_models_main_def fetch_body_main_def dict_get_def split: json.splits)

lemma fetch_models_body_examples:
  "fetch_models_app accept_hosts (answering (reply 200 (JArr [])))
      (new_client ''https://api.example.com/v1'' None) = Inl (InvalidSchema NotAnObject)
   \<and> fetch_models_app accept_hosts (answering (reply 200 (JObj [(''foo'', JNum 1)])))
      (new_client ''https://api.example.com/v1'' None) = Inl (InvalidSchema MissingData)
   \<and> fetch_models_main accept_hosts (answering (reply 200 (JObj [(''foo'', JNum 1)])))
      (new_client ''https://api.example.com/v1'' None) = Inl (InvalidSchema NoValidData)"
  by (simp add: fetch_models_app_def fetch_body_app_def fetch_models_main_def fetch_body_main_def
      sample_endpoint answering_def reply_def dict_get_def)

text \<open>
  Claim C2 says that a response of status 200 whose parsed body is not an object fails with
  \<open>InvalidSchema\<close>.  \<open>app.py\<close> does so (\<open>fetch_models_app_body_faults\<close>).  \<open>main.py\<close> does not:
  it calls \<open>data.get\<close> on the parsed body without testing that it is a dict, the
  \<open>AttributeError\<close> of any other value is neither a \<open>ValueError\<close> nor a \<open>KeyError\<close>, and the last
  handler turns it into the error \<open>Unknown\<close>.
\<close>

theorem fetch_models_main_non_object:
  assumes "endpoint_of chk c = Inr ep"
    and "net ep 30 (headers_of c) = Responds r"
    and "status_code r = 200"
    and "json_body r = Inr body"
    and "\<forall>items. body \<noteq> JObj items"
  shows "fetch_models_main chk net c = Inl (Unknown ''object has no attribute get'')"
  using assms
  by (cases body) (simp_all add: fetch_models_main_def fetch_body_main_def attribute_error_def)

text \<open>The failing input of C2: the server answers 200 with the JSON array \<open>[]\<close>.\<close>

theorem fetch_models_main_non_object_witness:
  "fetch_models_main accept_hosts (answering (reply 200 (JArr [])))
      (new_client ''https://api.example.com/v1'' None)
     = Inl (Unknown ''object has no attribute get'')"
  using fetch_models_main_non_object [OF sample_endpoint,
      of "answering (reply 200 (JArr []))" None
      "\<lparr>status_code = 200, json_body = Inr (JArr [])\<rparr>" "JArr []" accept_hosts]
  by (simp add: answering_def reply_def)

section \<open>Properties of the configuration files\<close>

text \<open>The paths of some profile names: a plain name gives a file directly in the directory,
  a name with a separator does not.\<close>

lemma get_path_examples:
  "get_path ''p1'' = ([], [''p1.json''])"
  "get_path ''default'' = ([], [''default.json''])"
  "get_path ''./p1'' = ([], [''p1.json''])"
  "get_path ''a/b'' = ([], [''a'', ''b.json''])"
  "get_path ''/tmp/b'' = (''/'', [''tmp'', ''b.json''])"
  by code_simp+

lemma get_path_default_cn: "get_path default_cn = ([], [default_cn @ ''.json''])"
  unfolding default_cn_def by code_simp

lemma new_dir_fields:
  "files new_dir = Map.empty"
  "write_raises new_dir ([], [f]) = None"
  "write_raises new_dir ([], [d, f]) = Some (os_error ''FileNotFoundError'')"
  "unlink_raises new_dir p = None"
  by (simp_all add: new_dir_def)



text \<open>
  Claim C9.  For every state of the disk, profile name, URL and key: when \<open>save\<close> returns,
  \<open>load\<close> of the same name returns the saved URL and the saved key; a key that is absent is
  written, and so read back, as the empty string, which is the stored form of no key.
  \<open>save\<close> returns whenever the write of the file of the name does not raise, and raises what
  the write raises otherwise.  When \<open>delete\<close> returns, \<open>load\<close> of the same name returns the
  dict with \<open>None\<close> under both keys, for every name and so for every name other than
  \<open>default\<close>; \<open>delete\<close> returns whenever removing the file does not raise.  The same holds
  for the one record of \<open>app.py\<close> with \<open>save_config\<close>, \<open>load_config\<close> and \<open>clear_config\<close>.
\<close>

theorem save_load_round_trip:
  "(save dir name url key now = Inr dir' \<longrightarrow>
      load dir' name =
        \<lparr>cfg_base_url = JStr url, cfg_api_key = JStr (case key of None \<Rightarrow> [] | Some k \<Rightarrow> k)\<rparr>)
   \<and> (write_raises dir (get_path name) = None \<longrightarrow>
      save dir name url key now =
        Inr (dir\<lparr>files := (files dir)(get_path name \<mapsto> Doc (config_doc url key now))\<rparr>))
   \<and> (write_raises dir (get_path name) = Some e \<longrightarrow> save dir name url key now = Inl e)
   \<and> (delete dir name = Inr dir'' \<longrightarrow> load dir'' name = no_config)
   \<and> (unlink_raises dir (get_path name) = None \<longrightarrow>
      delete dir name = Inr (dir\<lparr>files := (files dir)(get_path name := None)\<rparr>))
   \<and> (save_config w url key now = Inr cf \<longrightarrow>
      load_config cf =
        \<lparr>cfg_base_url = JStr url, cfg_api_key = JStr (case key of None \<Rightarrow> [] | Some k \<Rightarrow> k)\<rparr>)
   \<and> (w = None \<longrightarrow> (\<exists>cf'. save_config w url key now = Inr cf'))
   \<and> (clear_config u cfo = Inr cfn \<longrightarrow> load_config cfn = no_config)
   \<and> (u = None \<longrightarrow> clear_config u cfo = Inr None)"
proof -
  have a: "save dir name url key now = Inr dir' \<longrightarrow>
      load dir' name =
        \<lparr>cfg_base_url = JStr url, cfg_api_key = JStr (case key of None \<Rightarrow> [] | Some k \<Rightarrow> k)\<rparr>"
    by (auto simp: load_def save_def read_config_def config_doc_def dict_get_def
        split: option.splits)
  have b: "(write_raises dir (get_path name) = None \<longrightarrow>
      save dir name url key now =
        Inr (dir\<lparr>files := (files dir)(get_path name \<mapsto> Doc (config_doc url key now))\<rparr>))
    \<and> (write_raises dir (get_path name) = Some e \<longrightarrow> save dir name url key now = Inl e)"
    by (simp add: save_def)
  have c: "(delete dir name = Inr dir'' \<longrightarrow> load dir'' name = no_config)
    \<and> (unlink_raises dir (get_path name) = None \<longrightarrow>
      delete dir name = Inr (dir\<lparr>files := (files dir)(get_path name := None)\<rparr>))"
    by (auto simp: load_def delete_def split: option.splits)
  have d: "(save_config w url key now = Inr cf \<longrightarrow>
      load_config cf =
        \<lparr>cfg_base_url = JStr url, cfg_api_key = JStr (case key of None \<Rightarrow> [] | Some k \<Rightarrow> k)\<rparr>)
    \<and> (w = None \<longrightarrow> (\<exists>cf'. save_config w url key now = Inr cf'))"
    by (auto simp: load_config_def save_config_def read_config_def config_doc_def dict_get_def
        split: option.splits)
  have e: "(clear_config u cfo = Inr cfn \<longrightarrow> load_config cfn = no_config)
    \<and> (u = None \<longrightarrow> clear_config u cfo = Inr None)"
    by (auto simp: load_config_def clear_config_def split: option.splits)
  from a b c d e show ?thesis
    by blast
qed

text \<open>C9 on the profile \<open>p1\<close> of the specification, in a new directory; and on the name
  \<open>a/b\<close>, whose file lies in a directory that does not exist: \<open>save\<close> raises, nothing is
  stored, and \<open>load\<close> returns the dict with \<open>None\<close> under both keys.\<close>

theorem save_load_round_trip_witness:
  "save new_dir ''p1'' ''https://x/v1'' (Some ''k'') ''t'' =
      Inr (new_dir\<lparr>files := [([], [''p1.json'']) \<mapsto>
             Doc (config_doc ''https://x/v1'' (Some ''k'') ''t'')]\<rparr>)
   \<and> load (new_dir\<lparr>files := [([], [''p1.json'']) \<mapsto>
             Doc (config_doc ''https://x/v1'' (Some ''k'') ''t'')]\<rparr>) ''p1'' =
      \<lparr>cfg_base_url = JStr ''https://x/v1'', cfg_api_key = JStr ''k''\<rparr>
   \<and> delete (new_dir\<lparr>files := [([], [''p1.json'']) \<mapsto>
             Doc (config_doc ''https://x/v1'' (Some ''k'') ''t'')]\<rparr>) ''p1'' = Inr new_dir
   \<and> load new_dir ''p1'' = no_config
   \<and> save new_dir ''a/b'' ''https://x/v1'' (Some ''k'') ''t'' =
      Inl (os_error ''FileNotFoundError'')
   \<and> load new_dir ''a/b'' = no_config
   \<and> load_config (Some (Doc (config_doc ''https://x/v1'' (Some ''k'') ''t''))) =
      \<lparr>cfg_base_url = JStr ''https://x/v1'', cfg_api_key = JStr ''k''\<rparr>
   \<and> save_config None ''https://x/v1'' (Some ''k'') ''t'' =
      Inr (Some (Doc (config_doc ''https://x/v1'' (Some ''k'') ''t'')))
   \<and> clear_config None (Some (Doc (config_doc ''https://x/v1'' (Some ''k'') ''t''))) = Inr None
   \<and> load_config None = no_config"
proof -
  let ?doc = "Doc (config_doc ''https://x/v1'' (Some ''k'') ''t'')"
  let ?d1 = "new_dir\<lparr>files := [([], [''p1.json'']) \<mapsto> ?doc]\<rparr>"
  have sc: "save_config None ''https://x/v1'' (Some ''k'') ''t'' = Inr (Some ?doc)"
    by (simp add: save_config_def)
  have dl: "?d1\<lparr>files := (files ?d1)(([], [''p1.json'']) := None)\<rparr> = new_dir"
    by (simp add: new_dir_def)
  note s1 = save_load_round_trip [where dir = new_dir and name = "''p1''"
      and url = "''https://x/v1''" and key = "Some ''k''" and now = "''t''" and dir' = ?d1
      and dir'' = new_dir and w = None and cf = "Some ?doc" and u = None and cfo = "Some ?doc"
      and cfn = None]
  note s2 = save_load_round_trip [where dir = ?d1 and name = "''p1''"
      and url = "''https://x/v1''" and key = "Some ''k''" and now = "''t''" and dir' = ?d1
      and dir'' = new_dir and w = None and cf = "Some ?doc" and u = None and cfo = None
      and cfn = None]
  note s3 = save_load_round_trip [where dir = new_dir and name = "''a/b''"
      and url = "''https://x/v1''" and key = "Some ''k''" and now = "''t''" and dir'' = new_dir
      and e = "os_error ''FileNotFoundError''" and w = None and u = None and cfo = None
      and cfn = None]
  have a: "save new_dir ''p1'' ''https://x/v1'' (Some ''k'') ''t'' = Inr ?d1"
    using s1 by (simp add: get_path_examples new_dir_fields)
  have b: "load ?d1 ''p1'' = \<lparr>cfg_base_url = JStr ''https://x/v1'', cfg_api_key = JStr ''k''\<rparr>"
    using s1 a by simp
  have c: "delete ?d1 ''p1'' = Inr new_dir"
    using s2 dl by (simp add: get_path_examples new_dir_fields)
  have d: "load new_dir ''p1'' = no_config"
    using s2 c by simp
  have e: "save new_dir ''a/b'' ''https://x/v1'' (Some ''k'') ''t''
      = Inl (os_error ''FileNotFoundError'')"
    using s3 by (simp add: get_path_examples new_dir_fields)
  have dn: "delete new_dir ''a/b'' = Inr new_dir"
    by (simp add: delete_def new_dir_def)
  have f: "load new_dir ''a/b'' = no_config"
    using s3 dn by simp
  have g: "load_config (Some ?doc) =
      \<lparr>cfg_base_url = JStr ''https://x/v1'', cfg_api_key = JStr ''k''\<rparr>"
    using s1 sc by simp
  have h: "clear_config None (Some ?doc) = Inr None \<and> load_config None = no_config"
    using s1 by simp
  from a b c d e f g sc h show ?thesis
    by blast
qed

section \<open>Properties of the profiles page\<close>

lemma default_cn_file:
  "json_name (default_cn @ ''.json'')"
  "stem (default_cn @ ''.json'') = default_cn"
  "default_cn \<noteq> ''default''"
  "get_path ''default'' \<noteq> get_path default_cn"
  unfolding default_cn_def by code_simp+

lemma list_profiles_empty: "files dir = Map.empty \<Longrightarrow> list_profiles dir = {}"
  by (simp add: list_profiles_def)

lemma list_profiles_single:
  "files dir = [([], [f]) \<mapsto> x] \<Longrightarrow> json_name f \<Longrightarrow> list_profiles dir = {stem f}"
  by (auto simp: list_profiles_def)

text \<open>\<open>_delete_profile\<close> leaves the directory as it is when the name is \<open>default\<close>.\<close>

lemma delete_profile_default: "delete_profile now ''default'' dir = (None, dir)"
  by (simp add: delete_profile_def)

text \<open>The profile that \<open>_refresh_list\<close> creates is not protected: deleting it removes it, and
  the refresh that follows creates it again, empty.\<close>

lemma delete_profile_default_cn:
  assumes "files dir = [get_path default_cn \<mapsto> f]"
    and "unlink_raises dir (get_path default_cn) = None"
    and "write_raises dir (get_path default_cn) = None"
  shows "delete_profile now default_cn dir =
     (None, dir\<lparr>files := [get_path default_cn \<mapsto> Doc (config_doc [] (Some []) now)]\<rparr>)"
proof -
  have d: "delete dir default_cn = Inr (dir\<lparr>files := Map.empty\<rparr>)"
    using assms by (simp add: delete_def)
  have l: "list_profiles (dir\<lparr>files := Map.empty\<rparr>) = {}"
    by (simp add: list_profiles_empty)
  show ?thesis
    using assms d l by (simp add: delete_profile_def refresh_list_def save_def default_cn_file)
qed

text \<open>
  Claim C3 says that the list of profiles always holds the name \<open>default\<close>, created with an
  empty endpoint when the store is empty.  On an empty directory \<open>_refresh_list\<close> creates and
  shows a profile whose name is the Chinese word for default, not \<open>default\<close>: when the file
  of that name can be written, it is the one profile shown and the one file stored, and the
  name \<open>default\<close>, which \<open>_delete_profile\<close> protects and with which \<open>HomePage\<close> starts, is
  neither shown nor listed nor stored.  When the file cannot be written, the exception
  leaves \<open>_refresh_list\<close> and nothing is created.
\<close>

theorem refresh_list_empty_directory:
  "(files dir = Map.empty \<and> write_raises dir (get_path default_cn) = None \<longrightarrow>
      refresh_list now dir =
        Inr ({default_cn},
             dir\<lparr>files := [get_path default_cn \<mapsto> Doc (config_doc [] (Some []) now)]\<rparr>)
      \<and> ''default'' \<notin> {default_cn}
      \<and> ''default'' \<notin> list_profiles
            (dir\<lparr>files := [get_path default_cn \<mapsto> Doc (config_doc [] (Some []) now)]\<rparr>)
      \<and> [get_path default_cn \<mapsto> Doc (config_doc [] (Some []) now)] (get_path ''default'') = None)
   \<and> (files dir = Map.empty \<and> write_raises dir (get_path default_cn) = Some e \<longrightarrow>
      refresh_list now dir = Inl e)"
proof -
  let ?d = "dir\<lparr>files := [get_path default_cn \<mapsto> Doc (config_doc [] (Some []) now)]\<rparr>"
  have l: "list_profiles ?d = {default_cn}"
    using list_profiles_single [of ?d "default_cn @ ''.json''"
        "Doc (config_doc [] (Some []) now)"]
    by (simp add: get_path_default_cn default_cn_file)
  have a: "files dir = Map.empty \<and> write_raises dir (get_path default_cn) = None \<longrightarrow>
      refresh_list now dir = Inr ({default_cn}, ?d)"
    by (simp add: refresh_list_def list_profiles_empty save_def)
  have b: "files dir = Map.empty \<and> write_raises dir (get_path default_cn) = Some e \<longrightarrow>
      refresh_list now dir = Inl e"
    by (simp add: refresh_list_def list_profiles_empty save_def)
  have c: "''default'' \<notin> {default_cn} \<and> ''default'' \<notin> list_profiles ?d
      \<and> [get_path default_cn \<mapsto> Doc (config_doc [] (Some []) now)] (get_path ''default'') = None"
    using default_cn_file(3,4) by (simp add: l)
  from a b c show ?thesis
    by blast
qed

text \<open>C3 on a new directory: the one profile shown is the Chinese one, in the file of its
  name; and on an empty directory in which no file can be written.\<close>

theorem refresh_list_empty_directory_witness:
  "refresh_list ''t'' new_dir =
      Inr ({default_cn},
           new_dir\<lparr>files := [([], [default_cn @ ''.json'']) \<mapsto> Doc (config_doc [] (Some []) ''t'')]\<rparr>)
   \<and> ''default'' \<notin> {default_cn}
   \<and> ''default'' \<notin> list_profiles
         (new_dir\<lparr>files := [([], [default_cn @ ''.json'']) \<mapsto> Doc (config_doc [] (Some []) ''t'')]\<rparr>)
   \<and> [([], [default_cn @ ''.json'']) \<mapsto> Doc (config_doc [] (Some []) ''t'')]
        ([], [''default.json'']) = None
   \<and> refresh_list ''t'' (new_dir\<lparr>write_raises := (\<lambda>p. Some (os_error ''PermissionError''))\<rparr>)
      = Inl (os_error ''PermissionError'')"
  using refresh_list_empty_directory [of new_dir "''t''"]
    refresh_list_empty_directory
      [of "new_dir\<lparr>write_raises := (\<lambda>p. Some (os_error ''PermissionError''))\<rparr>" "''t''"
        "os_error ''PermissionError''"]
  by (simp add: get_path_default_cn get_path_examples new_dir_fields)

section \<open>Properties of a fetch\<close>

lemma sample_strip:
  "py_strip ''https://api.example.com/v1'' = ''https://api.example.com/v1''"
  "py_strip ''k'' = ''k''"
  by code_simp+

lemma sample_fields:
  "py_strip (url_entry sample_home) = ''https://api.example.com/v1''"
  "py_strip (key_entry sample_home) = ''k''"
  "py_strip (url_field sample_app) = ''https://api.example.com/v1''"
  "py_strip (key_field sample_app) = ''k''"
  "disk sample_home = new_dir"
  "current_profile sample_home = ''default''"
  "config_file sample_app = None"
  "config_write_raises sample_app = None"
  "clear_models sample_home = sample_home"
  "sample_app\<lparr>shown_ids := []\<rparr> = sample_app"
  "model_ids sample_home = []"
  "shown_ids sample_app = []"
  by (simp_all add: sample_home_def sample_app_def sample_strip clear_models_def)

lemma sample_valid:
  "validate_url_main accept_hosts ''https://api.example.com/v1''"
  "validate_url_app accept_hosts ''https://api.example.com/v1''"
  by code_simp+

lemma sample_fetch_main:
  "fetch_models_main accept_hosts (answering (reply 200 (JObj [(''data'', JArr xs)])))
     (new_client ''https://api.example.com/v1'' key) = Inr (JObj [(''data'', JArr xs)])"
  by (simp add: fetch_models_main_def fetch_body_main_def sample_endpoint answering_def reply_def
      dict_get_def)

lemma sample_fetch_app:
  "fetch_models_app accept_hosts (answering (reply 200 (JObj [(''data'', JArr xs)])))
     (new_client ''https://api.example.com/v1'' key) = Inr (JObj [(''data'', JArr xs)])"
  by (simp add: fetch_models_app_def fetch_body_app_def sample_endpoint answering_def reply_def)

lemma sample_save:
  "save new_dir ''default'' url key now =
     Inr (new_dir\<lparr>files := [([], [''default.json'']) \<mapsto> Doc (config_doc url key now)]\<rparr>)"
  "save new_dir ''a/b'' url key now = Inl (os_error ''FileNotFoundError'')"
  by (simp_all add: save_def get_path_examples new_dir_fields)

text \<open>What \<open>fetch_models\<close> returns, in both files, is an object with a list under \<open>data\<close>.\<close>

lemma fetch_body_returns_list:
  "fetch_body_main chk net c = Inr r \<Longrightarrow>
     \<exists>items ms. r = JObj items \<and> map_of items ''data'' = Some (JArr ms)"
  "fetch_body_app chk net c = Inr r \<Longrightarrow>
     \<exists>items ms. r = JObj items \<and> map_of items ''data'' = Some (JArr ms)"
  by (auto simp: fetch_body_main_def fetch_body_app_def dict_get_def
      split: sum.splits transport.splits json.splits option.splits if_splits)

lemma fetch_models_returns_body:
  "fetch_models_main chk net c = Inr r \<Longrightarrow> fetch_body_main chk net c = Inr r"
  "fetch_models_app chk net c = Inr r \<Longrightarrow> fetch_body_app chk net c = Inr r"
  by (auto simp: fetch_models_main_def fetch_models_app_def
      split: sum.splits raised.splits if_splits)

lemma fetch_models_returns_list:
  "fetch_models_main chk net c = Inr r \<Longrightarrow>
     \<exists>items ms. r = JObj items \<and> map_of items ''data'' = Some (JArr ms)"
  "fetch_models_app chk net c = Inr r \<Longrightarrow>
     \<exists>items ms. r = JObj items \<and> map_of items ''data'' = Some (JArr ms)"
  by (blast dest: fetch_models_returns_body fetch_body_returns_list)+

text \<open>A list of JSON values consists of objects, or has a first element that is none.\<close>

lemma objects_or_not:
  "(\<exists>ds. ms = map JObj ds)
   \<or> (\<exists>ds m rest. ms = map JObj ds @ m # rest \<and> (\<forall>d. m \<noteq> JObj d))"
proof (induction ms)
  case Nil
  have "[] = map JObj []"
    by simp
  then show ?case
    by - (rule disjI1, rule exI)
next
  case (Cons a ms)
  show ?case
  proof (cases "\<exists>d. a = JObj d")
    case False
    then have "a # ms = map JObj [] @ a # ms \<and> (\<forall>d. a \<noteq> JObj d)"
      by simp
    then show ?thesis
      by - (rule disjI2, (rule exI)+)
  next
    case True
    then obtain d where a: "a = JObj d"
      by (rule exE)
    from Cons.IH show ?thesis
    proof (rule disjE)
      assume "\<exists>ds. ms = map JObj ds"
      then obtain ds where "ms = map JObj ds"
        by (rule exE)
      then have "a # ms = map JObj (d # ds)"
        using a by simp
      then show ?thesis
        by - (rule disjI1, rule exI)
    next
      assume "\<exists>ds m rest. ms = map JObj ds @ m # rest \<and> (\<forall>d. m \<noteq> JObj d)"
      then obtain ds m rest where "ms = map JObj ds @ m # rest \<and> (\<forall>d. m \<noteq> JObj d)"
        by (elim exE)
      then have "a # ms = map JObj (d # ds) @ m # rest \<and> (\<forall>d. m \<noteq> JObj d)"
        using a by simp
      then show ?thesis
        by - (rule disjI2, (rule exI)+)
    qed
  qed
qed

lemma ids_of_objects:
  "ids_of (map JObj ds) = Inr (map (\<lambda>d. dict_get d ''id'' (JStr ''Unknown'')) ds)"
  by (induction ds) (simp_all add: get_id_def)

lemma add_models_objects:
  "add_models (map JObj ds) acc = (acc @ map (\<lambda>d. dict_get d ''id'' (JStr ''Unknown'')) ds, None)"
  by (induction ds arbitrary: acc) (simp_all add: get_id_def)

lemma get_id_non_object:
  "\<forall>d. m \<noteq> JObj d \<Longrightarrow> get_id m = Inl (attribute_error ''object has no attribute get'')"
  by (cases m) (simp_all add: get_id_def)

lemma ids_of_non_object:
  "\<forall>d. m \<noteq> JObj d \<Longrightarrow>
     ids_of (map JObj ds @ m # rest) = Inl (attribute_error ''object has no attribute get'')"
proof (induction ds)
  case Nil
  then show ?case
    using get_id_non_object [of m] by simp
next
  case (Cons a ds)
  then show ?case
    by (simp add: get_id_def)
qed

lemma add_models_non_object:
  "\<forall>d. m \<noteq> JObj d \<Longrightarrow>
     add_models (map JObj ds @ m # rest) acc =
       (acc @ map (\<lambda>d. dict_get d ''id'' (JStr ''Unknown'')) ds,
        Some (attribute_error ''object has no attribute get''))"
proof (induction ds arbitrary: acc)
  case Nil
  then show ?case
    using get_id_non_object [of m] by simp
next
  case (Cons a ds)
  then show ?case
    by (simp add: get_id_def)
qed

text \<open>The handlers of a result, by the shape of the list under \<open>data\<close>.\<close>

lemma on_success_objects:
  assumes "map_of items ''data'' = Some (JArr (map JObj ds))"
  shows "on_success now (JObj items) st =
     (if ds = [] then (NoModels, st)
      else (case save (disk st) (current_profile st) (py_strip (url_entry st))
                   (Some (py_strip (key_entry st))) now of
              Inl e \<Rightarrow>
                (Unsaved (length ds) e,
                 st\<lparr>all_models := map (\<lambda>d. dict_get d ''id'' (JStr ''Unknown'')) ds,
                    model_ids := map (\<lambda>d. dict_get d ''id'' (JStr ''Unknown'')) ds\<rparr>)
            | Inr dir \<Rightarrow>
                (Succeeded (length ds),
                 st\<lparr>all_models := map (\<lambda>d. dict_get d ''id'' (JStr ''Unknown'')) ds,
                    model_ids := map (\<lambda>d. dict_get d ''id'' (JStr ''Unknown'')) ds,
                    disk := dir\<rparr>)))"
proof -
  have d: "dict_get items ''data'' (JArr []) = JArr (map JObj ds)"
    using assms by (simp add: dict_get_def)
  show ?thesis
    by (simp add: on_success_def d ids_of_objects split: sum.splits)
qed

lemma on_success_non_object:
  assumes "map_of items ''data'' = Some (JArr (map JObj ds @ m # rest))" and "\<forall>d. m \<noteq> JObj d"
  shows "on_success now (JObj items) st =
     (Crashed (attribute_error ''object has no attribute get''), st)"
proof -
  have d: "dict_get items ''data'' (JArr []) = JArr (map JObj ds @ m # rest)"
    using assms by (simp add: dict_get_def)
  show ?thesis
    using assms(2) by (simp add: on_success_def d ids_of_non_object)
qed

lemma on_fetch_success_objects:
  assumes "map_of items ''data'' = Some (JArr (map JObj ds))"
  shows "on_fetch_success now (JObj items) st =
     (if ds = [] then (NoModels, st)
      else (case save_config (config_write_raises st) (py_strip (url_field st))
                   (Some (py_strip (key_field st))) now of
              Inl e \<Rightarrow>
                (Unsaved (length ds) e,
                 st\<lparr>shown_ids := shown_ids st
                      @ map (\<lambda>d. dict_get d ''id'' (JStr ''Unknown'')) ds\<rparr>)
            | Inr cf \<Rightarrow>
                (Succeeded (length ds),
                 st\<lparr>shown_ids := shown_ids st
                      @ map (\<lambda>d. dict_get d ''id'' (JStr ''Unknown'')) ds,
                    config_file := cf\<rparr>)))"
proof -
  have d: "dict_get items ''data'' (JArr []) = JArr (map JObj ds)"
    using assms by (simp add: dict_get_def)
  show ?thesis
    by (simp add: on_fetch_success_def d add_models_objects split: sum.splits)
qed

lemma on_fetch_success_non_object:
  assumes "map_of items ''data'' = Some (JArr (map JObj ds @ m # rest))" and "\<forall>d. m \<noteq> JObj d"
  shows "on_fetch_success now (JObj items) st =
     (Crashed (attribute_error ''object has no attribute get''),
      st\<lparr>shown_ids := shown_ids st @ map (\<lambda>d. dict_get d ''id'' (JStr ''Unknown'')) ds\<rparr>)"
proof -
  have d: "dict_get items ''data'' (JArr []) = JArr (map JObj ds @ m # rest)"
    using assms by (simp add: dict_get_def)
  show ?thesis
    using assms(2) by (simp add: on_fetch_success_def d add_models_non_object)
qed



lemma fetch_returned:
  assumes "py_strip (url_entry st) \<noteq> []" and "validate_url_main chk (py_strip (url_entry st))"
    and "fetch_models_main chk net
           (new_client (py_strip (url_entry st))
              (Some (py_strip (key_entry (before_worker (clear_models st)))))) = Inr r"
  shows "fetch chk net now before_worker before_slot st =
     on_success now r (before_slot (before_worker (clear_models st)))"
  using assms by (simp add: fetch_def Let_def)



lemma fetch_async_returned:
  assumes "py_strip (url_field sa) \<noteq> []" and "validate_url_app chk (py_strip (url_field sa))"
    and "fetch_models_app chk net
           (new_client (py_strip (url_field sa)) (Some (py_strip (key_field sa)))) = Inr r"
  shows "fetch_models_async chk net now before_callback sa =
     on_fetch_success now r (before_callback (sa\<lparr>shown_ids := []\<rparr>))"
  using assms by (simp add: fetch_models_async_def Let_def)

text \<open>
  Claim C6 says that on a successful fetch each element of \<open>data\<close> becomes one model.  The
  handlers read the id with \<open>get\<close>, which exists on an object only, so this holds when the
  elements are objects.  When the input is valid and \<open>fetch_models\<close> returns an object whose
  \<open>data\<close> is a non-empty list of objects, the ids shown after the fetch are, element by
  element and in the order of \<open>data\<close>, the \<open>id\<close> of each object, or the string \<open>Unknown\<close>
  where the object has no \<open>id\<close>; so there are as many ids as elements.  When \<open>data\<close> is the
  empty list the fetch ends without an error, with no models, and the list of ids is left as
  it was cleared.  A response of status 200 whose body has a list under \<open>data\<close>, empty or
  not, makes \<open>fetch_models\<close> return that body: it is no error.  This holds for \<open>main.py\<close> and
  for \<open>app.py\<close>, whatever happens to the window during the fetch: \<open>stw\<close> is the window of
  \<open>main.py\<close> when the worker reads the key and \<open>sts\<close> when the slot runs, \<open>sac\<close> the window of
  \<open>app.py\<close> when the callback runs.
\<close>

theorem models_in_source_order:
  "(py_strip (url_entry st) \<noteq> [] \<and> validate_url_main chk (py_strip (url_entry st))
      \<and> stw = before_worker (clear_models st) \<and> sts = before_slot stw
      \<and> fetch_models_main chk net
           (new_client (py_strip (url_entry st)) (Some (py_strip (key_entry stw))))
          = Inr (JObj items)
      \<and> map_of items ''data'' = Some (JArr (map JObj ds)) \<longrightarrow>
        model_ids (snd (fetch chk net now before_worker before_slot st)) =
          (if ds = [] then model_ids sts
           else map (\<lambda>d. dict_get d ''id'' (JStr ''Unknown'')) ds)
        \<and> fst (fetch chk net now before_worker before_slot st) =
          (if ds = [] then NoModels
           else (case save (disk sts) (current_profile sts) (py_strip (url_entry sts))
                        (Some (py_strip (key_entry sts))) now of
                   Inl x \<Rightarrow> Unsaved (length ds) x
                 | Inr dir \<Rightarrow> Succeeded (length ds))))
   \<and> (py_strip (url_field sa) \<noteq> [] \<and> validate_url_app chk (py_strip (url_field sa))
      \<and> sac = before_callback (sa\<lparr>shown_ids := []\<rparr>)
      \<and> fetch_models_app chk net
           (new_client (py_strip (url_field sa)) (Some (py_strip (key_field sa))))
          = Inr (JObj items)
      \<and> map_of items ''data'' = Some (JArr (map JObj ds)) \<longrightarrow>
        shown_ids (snd (fetch_models_async chk net now before_callback sa)) =
          shown_ids sac @ map (\<lambda>d. dict_get d ''id'' (JStr ''Unknown'')) ds
        \<and> fst (fetch_models_async chk net now before_callback sa) =
          (if ds = [] then NoModels
           else (case save_config (config_write_raises sac) (py_strip (url_field sac))
                        (Some (py_strip (key_field sac))) now of
                   Inl x \<Rightarrow> Unsaved (length ds) x
                 | Inr cf \<Rightarrow> Succeeded (length ds))))
   \<and> (endpoint_of chk c = Inr ep \<and> net ep 30 (headers_of c) = Responds r \<and> status_code r = 200
      \<and> json_body r = Inr (JObj items) \<and> map_of items ''data'' = Some (JArr xs) \<longrightarrow>
        fetch_models_app chk net c = Inr (JObj items)
        \<and> fetch_models_main chk net c = Inr (JObj items))"
proof -
  have main: "py_strip (url_entry st) \<noteq> [] \<and> validate_url_main chk (py_strip (url_entry st))
      \<and> stw = before_worker (clear_models st) \<and> sts = before_slot stw
      \<and> fetch_models_main chk net
           (new_client (py_strip (url_entry st)) (Some (py_strip (key_entry stw))))
          = Inr (JObj items)
      \<and> map_of items ''data'' = Some (JArr (map JObj ds)) \<longrightarrow>
        model_ids (snd (fetch chk net now before_worker before_slot st)) =
          (if ds = [] then model_ids sts
           else map (\<lambda>d. dict_get d ''id'' (JStr ''Unknown'')) ds)
        \<and> fst (fetch chk net now before_worker before_slot st) =
          (if ds = [] then NoModels
           else (case save (disk sts) (current_profile sts) (py_strip (url_entry sts))
                        (Some (py_strip (key_entry sts))) now of
                   Inl x \<Rightarrow> Unsaved (length ds) x
                 | Inr dir \<Rightarrow> Succeeded (length ds)))"
    by (auto simp: fetch_returned on_success_objects split: sum.splits)
  have app: "py_strip (url_field sa) \<noteq> [] \<and> validate_url_app chk (py_strip (url_field sa))
      \<and> sac = before_callback (sa\<lparr>shown_ids := []\<rparr>)
      \<and> fetch_models_app chk net
           (new_client (py_strip (url_field sa)) (Some (py_strip (key_field sa))))
          = Inr (JObj items)
      \<and> map_of items ''data'' = Some (JArr (map JObj ds)) \<longrightarrow>
        shown_ids (snd (fetch_models_async chk net now before_callback sa)) =
          shown_ids sac @ map (\<lambda>d. dict_get d ''id'' (JStr ''Unknown'')) ds
        \<and> fst (fetch_models_async chk net now before_callback sa) =
          (if ds = [] then NoModels
           else (case save_config (config_write_raises sac) (py_strip (url_field sac))
                        (Some (py_strip (key_field sac))) now of
                   Inl x \<Rightarrow> Unsaved (length ds) x
                 | Inr cf \<Rightarrow> Succeeded (length ds)))"
    by (auto simp: fetch_async_returned on_fetch_success_objects split: sum.splits)
  have ret: "endpoint_of chk c = Inr ep \<and> net ep 30 (headers_of c) = Responds r
      \<and> status_code r = 200
      \<and> json_body r = Inr (JObj items) \<and> map_of items ''data'' = Some (JArr xs) \<longrightarrow>
        fetch_models_app chk net c = Inr (JObj items)
        \<and> fetch_models_main chk net c = Inr (JObj items)"
    by (auto simp: fetch_models_app_def fetch_body_app_def fetch_models_main_def
        fetch_body_main_def dict_get_def)
  from main app ret show ?thesis
    by blast
qed

text \<open>C6 on the body \<open>{"data":[{"id":"gpt-x"},{}]}\<close> and on the body \<open>{"data":[]}\<close>, when
  nothing happens to the window during the fetch.\<close>

theorem models_in_source_order_witness:
  "model_ids (snd (fetch accept_hosts
      (answering (reply 200 (JObj [(''data'', JArr [JObj [(''id'', JStr ''gpt-x'')], JObj []])])))
      ''t'' id id sample_home)) = [JStr ''gpt-x'', JStr ''Unknown'']
   \<and> fst (fetch accept_hosts
      (answering (reply 200 (JObj [(''data'', JArr [JObj [(''id'', JStr ''gpt-x'')], JObj []])])))
      ''t'' id id sample_home) = Succeeded 2
   \<and> shown_ids (snd (fetch_models_async accept_hosts
      (answering (reply 200 (JObj [(''data'', JArr [JObj [(''id'', JStr ''gpt-x'')], JObj []])])))
      ''t'' id sample_app)) = [JStr ''gpt-x'', JStr ''Unknown'']
   \<and> fst (fetch accept_hosts (answering (reply 200 (JObj [(''data'', JArr [])]))) ''t'' id id
        sample_home) = NoModels
   \<and> model_ids (snd (fetch accept_hosts (answering (reply 200 (JObj [(''data'', JArr [])]))) ''t''
        id id sample_home)) = []
   \<and> fst (fetch_models_async accept_hosts (answering (reply 200 (JObj [(''data'', JArr [])])))
        ''t'' id sample_app) = NoModels
   \<and> fetch_models_app accept_hosts (answering (reply 200 (JObj [(''data'', JArr [])])))
        (new_client ''https://api.example.com/v1'' None) = Inr (JObj [(''data'', JArr [])])
   \<and> fetch_models_main accept_hosts (answering (reply 200 (JObj [(''data'', JArr [])])))
        (new_client ''https://api.example.com/v1'' None) = Inr (JObj [(''data'', JArr [])])"
proof -
  let ?two = "answering (reply 200
      (JObj [(''data'', JArr [JObj [(''id'', JStr ''gpt-x'')], JObj []])]))"
  let ?none = "answering (reply 200 (JObj [(''data'', JArr [])]))"
  have a: "model_ids (snd (fetch accept_hosts ?two ''t'' id id sample_home))
        = [JStr ''gpt-x'', JStr ''Unknown'']
    \<and> fst (fetch accept_hosts ?two ''t'' id id sample_home) = Succeeded 2
    \<and> shown_ids (snd (fetch_models_async accept_hosts ?two ''t'' id sample_app))
        = [JStr ''gpt-x'', JStr ''Unknown'']"
    using models_in_source_order [where st = sample_home and chk = accept_hosts and net = ?two
        and items = "[(''data'', JArr [JObj [(''id'', JStr ''gpt-x'')], JObj []])]"
        and ds = "[[(''id'', JStr ''gpt-x'')], []]" and now = "''t''" and sa = sample_app
        and before_worker = id and before_slot = id and before_callback = id
        and stw = sample_home and sts = sample_home and sac = sample_app
        and c = "new_client [] None" and ep = "[]" and xs = "[]"]
    by (simp add: sample_fields sample_valid sample_fetch_main sample_fetch_app dict_get_def
        sample_save)
  have b: "fst (fetch accept_hosts ?none ''t'' id id sample_home) = NoModels
    \<and> model_ids (snd (fetch accept_hosts ?none ''t'' id id sample_home)) = []
    \<and> fst (fetch_models_async accept_hosts ?none ''t'' id sample_app) = NoModels"
    using models_in_source_order [where st = sample_home and chk = accept_hosts and net = ?none
        and items = "[(''data'', JArr [])]" and ds = "[]" and now = "''t''" and sa = sample_app
        and before_worker = id and before_slot = id and before_callback = id
        and stw = sample_home and sts = sample_home and sac = sample_app
        and c = "new_client [] None" and ep = "[]" and xs = "[]"]
    by (simp add: sample_fields sample_valid sample_fetch_main sample_fetch_app)
  have c: "fetch_models_app accept_hosts ?none (new_client ''https://api.example.com/v1'' None)
        = Inr (JObj [(''data'', JArr [])])
    \<and> fetch_models_main accept_hosts ?none (new_client ''https://api.example.com/v1'' None)
        = Inr (JObj [(''data'', JArr [])])"
    using models_in_source_order [where st = sample_home and chk = accept_hosts and net = ?none
        and items = "[(''data'', JArr [])]" and ds = "[]" and now = "''t''" and sa = sample_app
        and before_worker = id and before_slot = id and before_callback = id
        and stw = sample_home and sts = sample_home and sac = sample_app
        and c = "new_client ''https://api.example.com/v1'' None"
        and ep = "''https://api.example.com/v1/models''"
        and r = "\<lparr>status_code = 200, json_body = Inr (JObj [(''data'', JArr [])])\<rparr>"
        and xs = "[]"]
    by (simp add: sample_endpoint answering_def reply_def)
  from a b c show ?thesis
    by blast
qed

text \<open>
  The claim C6 as it was stated fails on a successful fetch whose \<open>data\<close> holds an element that
  is no object.  The server answers 200 with \<open>{"data":["gpt-4"]}\<close>: \<open>fetch_models\<close> of both
  files returns this body, and the handler of the result raises; no id is shown for the one
  element.  On \<open>{"data":[{"id":"a"},"x"]}\<close> \<open>main.py\<close> shows no id and \<open>app.py\<close> shows one id for
  two elements.
\<close>

theorem non_object_element_not_shown:
  "fetch_models_main accept_hosts (answering (reply 200 (JObj [(''data'', JArr [JStr ''gpt-4''])])))
      (new_client ''https://api.example.com/v1'' (Some ''k''))
      = Inr (JObj [(''data'', JArr [JStr ''gpt-4''])])
   \<and> fetch accept_hosts (answering (reply 200 (JObj [(''data'', JArr [JStr ''gpt-4''])]))) ''t''
        id id sample_home
      = (Crashed (attribute_error ''object has no attribute get''), sample_home)
   \<and> model_ids sample_home = []
   \<and> fetch_models_app accept_hosts (answering (reply 200 (JObj [(''data'', JArr [JStr ''gpt-4''])])))
      (new_client ''https://api.example.com/v1'' (Some ''k''))
      = Inr (JObj [(''data'', JArr [JStr ''gpt-4''])])
   \<and> fetch_models_async accept_hosts
        (answering (reply 200 (JObj [(''data'', JArr [JStr ''gpt-4''])]))) ''t'' id sample_app
      = (Crashed (attribute_error ''object has no attribute get''), sample_app)
   \<and> shown_ids sample_app = []
   \<and> model_ids (snd (fetch accept_hosts
        (answering (reply 200 (JObj [(''data'', JArr [JObj [(''id'', JStr ''a'')], JStr ''x''])])))
        ''t'' id id sample_home)) = []
   \<and> shown_ids (snd (fetch_models_async accept_hosts
        (answering (reply 200 (JObj [(''data'', JArr [JObj [(''id'', JStr ''a'')], JStr ''x''])])))
        ''t'' id sample_app)) = [JStr ''a'']"
proof -
  let ?one = "answering (reply 200 (JObj [(''data'', JArr [JStr ''gpt-4''])]))"
  let ?mix = "answering (reply 200 (JObj [(''data'', JArr [JObj [(''id'', JStr ''a'')], JStr ''x''])]))"
  have n: "\<forall>d. JStr s \<noteq> JObj d" for s
    by simp
  have e1: "map_of [(''data'', JArr [JStr ''gpt-4''])] ''data''
      = Some (JArr (map JObj [] @ JStr ''gpt-4'' # []))"
    by simp
  have e2: "map_of [(''data'', JArr [JObj [(''id'', JStr ''a'')], JStr ''x''])] ''data''
      = Some (JArr (map JObj [[(''id'', JStr ''a'')]] @ JStr ''x'' # []))"
    by simp
  have a: "fetch accept_hosts ?one ''t'' id id sample_home
      = (Crashed (attribute_error ''object has no attribute get''), sample_home)"
    by (simp add: fetch_returned [where r = "JObj [(''data'', JArr [JStr ''gpt-4''])]"]
        sample_fields sample_valid sample_fetch_main on_success_non_object [OF e1 n])
  have b: "fetch_models_async accept_hosts ?one ''t'' id sample_app
      = (Crashed (attribute_error ''object has no attribute get''), sample_app)"
    by (simp add: fetch_async_returned [where r = "JObj [(''data'', JArr [JStr ''gpt-4''])]"]
        sample_fields sample_valid sample_fetch_app on_fetch_success_non_object [OF e1 n])
  have c: "fetch accept_hosts ?mix ''t'' id id sample_home
      = (Crashed (attribute_error ''object has no attribute get''), sample_home)"
    by (simp add: fetch_returned
          [where r = "JObj [(''data'', JArr [JObj [(''id'', JStr ''a'')], JStr ''x''])]"]
        sample_fields sample_valid sample_fetch_main on_success_non_object [OF e2 n])
  have d: "fetch_models_async accept_hosts ?mix ''t'' id sample_app
      = (Crashed (attribute_error ''object has no attribute get''),
         sample_app\<lparr>shown_ids := [JStr ''a'']\<rparr>)"
    by (simp add: fetch_async_returned
          [where r = "JObj [(''data'', JArr [JObj [(''id'', JStr ''a'')], JStr ''x''])]"]
        sample_fields sample_valid sample_fetch_app on_fetch_success_non_object [OF e2 n]
        dict_get_def)
  show ?thesis
    unfolding a b c d
    by (simp add: sample_fetch_main sample_fetch_app sample_fields)
qed






text \<open>
  The save of \<open>main.py\<close> can raise after the models are shown: with a current profile named
  \<open>a/b\<close> in a directory without sub-directories, the fetch shows the model and stores
  nothing.  In \<open>app.py\<close> the exception of \<open>save_config\<close> is caught and printed.
\<close>

lemma failed_save_keeps_store:
  "fetch accept_hosts
      (answering (reply 200 (JObj [(''data'', JArr [JObj [(''id'', JStr ''gpt-x'')]])])))
      ''t'' id id (sample_home\<lparr>current_profile := ''a/b''\<rparr>)
     = (Unsaved 1 (os_error ''FileNotFoundError''),
        sample_home\<lparr>current_profile := ''a/b'', all_models := [JStr ''gpt-x''],
          model_ids := [JStr ''gpt-x'']\<rparr>)"
  "fetch_models_async accept_hosts
      (answering (reply 200 (JObj [(''data'', JArr [JObj [(''id'', JStr ''gpt-x'')]])])))
      ''t'' id (sample_app\<lparr>config_write_raises := Some (os_error ''PermissionError'')\<rparr>)
     = (Unsaved 1 (os_error ''cannot save the configuration: PermissionError''),
        sample_app\<lparr>config_write_raises := Some (os_error ''PermissionError''),
          shown_ids := [JStr ''gpt-x'']\<rparr>)"
proof -
  let ?body = "JObj [(''data'', JArr [JObj [(''id'', JStr ''gpt-x'')]])]"
  have e: "map_of [(''data'', JArr [JObj [(''id'', JStr ''gpt-x'')]])] ''data''
      = Some (JArr (map JObj [[(''id'', JStr ''gpt-x'')]]))"
    by simp
  have f: "py_strip (url_entry (sample_home\<lparr>current_profile := ''a/b''\<rparr>))
        = ''https://api.example.com/v1''"
    "py_strip (key_entry (sample_home\<lparr>current_profile := ''a/b''\<rparr>)) = ''k''"
    "clear_models (sample_home\<lparr>current_profile := ''a/b''\<rparr>)
        = sample_home\<lparr>current_profile := ''a/b''\<rparr>"
    "disk (sample_home\<lparr>current_profile := ''a/b''\<rparr>) = new_dir"
    by (simp_all add: sample_home_def sample_strip clear_models_def)
  show "fetch accept_hosts (answering (reply 200 ?body)) ''t'' id id
      (sample_home\<lparr>current_profile := ''a/b''\<rparr>)
     = (Unsaved 1 (os_error ''FileNotFoundError''),
        sample_home\<lparr>current_profile := ''a/b'', all_models := [JStr ''gpt-x''],
          model_ids := [JStr ''gpt-x'']\<rparr>)"
    by (simp add: fetch_returned [where r = ?body] f sample_fields sample_valid
        sample_fetch_main on_success_objects [OF e] sample_save dict_get_def)
  let ?sa = "sample_app\<lparr>config_write_raises := Some (os_error ''PermissionError'')\<rparr>"
  have g: "py_strip (url_field ?sa) = ''https://api.example.com/v1''"
    "py_strip (key_field ?sa) = ''k''"
    "?sa\<lparr>shown_ids := []\<rparr> = ?sa"
    "shown_ids ?sa = []"
    by (simp_all add: sample_app_def sample_strip)
  show "fetch_models_async accept_hosts (answering (reply 200 ?body)) ''t'' id ?sa
     = (Unsaved 1 (os_error ''cannot save the configuration: PermissionError''),
        ?sa\<lparr>shown_ids := [JStr ''gpt-x'']\<rparr>)"
    by (simp add: fetch_async_returned [where r = ?body] g sample_fields sample_valid
        sample_fetch_app on_fetch_success_objects [OF e] save_config_def os_error_def
        dict_get_def)
qed

text \<open>
  What is saved is what the entries hold when the result is delivered.  When the URL entry
  is replaced by \<open>ftp://other\<close> while the request is under way, the fetch of the validated URL
  succeeds and \<open>ftp://other\<close>, which \<open>validate_url\<close> rejects, is saved.
\<close>

lemma edited_entries_are_saved:
  "\<not> validate_url_main accept_hosts ''ftp://other''"
  "fetch accept_hosts
      (answering (reply 200 (JObj [(''data'', JArr [JObj [(''id'', JStr ''gpt-x'')]])])))
      ''t'' id (url_entry_update (\<lambda>u. ''ftp://other'')) sample_home
     = (Succeeded 1,
        sample_home\<lparr>url_entry := ''ftp://other'', all_models := [JStr ''gpt-x''],
          model_ids := [JStr ''gpt-x''],
          disk := new_dir\<lparr>files := [([], [''default.json'']) \<mapsto>
                    Doc (config_doc ''ftp://other'' (Some ''k'') ''t'')]\<rparr>\<rparr>)"
proof -
  let ?body = "JObj [(''data'', JArr [JObj [(''id'', JStr ''gpt-x'')]])]"
  have e: "map_of [(''data'', JArr [JObj [(''id'', JStr ''gpt-x'')]])] ''data''
      = Some (JArr (map JObj [[(''id'', JStr ''gpt-x'')]]))"
    by simp
  have s: "py_strip ''ftp://other'' = ''ftp://other''"
    by code_simp
  have f: "py_strip (key_entry (sample_home\<lparr>url_entry := ''ftp://other''\<rparr>)) = ''k''"
    "disk (sample_home\<lparr>url_entry := ''ftp://other''\<rparr>) = new_dir"
    "current_profile (sample_home\<lparr>url_entry := ''ftp://other''\<rparr>) = ''default''"
    by (simp_all add: sample_fields)
  show "\<not> validate_url_main accept_hosts ''ftp://other''"
    by code_simp
  show "fetch accept_hosts (answering (reply 200 ?body)) ''t'' id
      (url_entry_update (\<lambda>u. ''ftp://other'')) sample_home
     = (Succeeded 1,
        sample_home\<lparr>url_entry := ''ftp://other'', all_models := [JStr ''gpt-x''],
          model_ids := [JStr ''gpt-x''],
          disk := new_dir\<lparr>files := [([], [''default.json'']) \<mapsto>
                    Doc (config_doc ''ftp://other'' (Some ''k'') ''t'')]\<rparr>\<rparr>)"
    by (simp add: fetch_returned [where r = ?body] sample_fields sample_valid sample_fetch_main
        on_success_objects [OF e] f s sample_save dict_get_def)
qed

end
